theory Spec2Isabelle
  imports Complex_Main "HOL-Library.Finite_Map"
begin

section \<open>JavaScript values\<close>

text \<open>
  The gateway handles parsed JSON and the value \<open>undefined\<close> of missing properties.
  An object is a finite map from property names to values (the order of the keys is not
  modelled); a number is the real value of the double.
\<close>

datatype jsval =
    JUndefined
  | JNull
  | JBool bool
  | JNum real
  | JStr string
  | JArr "jsval list"
  | JObj "(string, jsval) fmap"

text \<open>Truthiness, as tested by \<open>!x\<close>, \<open>x || y\<close> and \<open>Boolean(x)\<close>.\<close>

fun truthy :: "jsval \<Rightarrow> bool" where
  "truthy JUndefined = False"
| "truthy JNull = False"
| "truthy (JBool b) = b"
| "truthy (JNum n) = (n \<noteq> 0)"
| "truthy (JStr s) = (s \<noteq> [])"
| "truthy (JArr xs) = True"
| "truthy (JObj m) = True"

text \<open>\<open>a || b\<close>\<close>

definition js_or :: "jsval \<Rightarrow> jsval \<Rightarrow> jsval" where
  "js_or a b = (if truthy a then a else b)"

text \<open>
  \<open>v.k\<close> for a value that is neither \<open>null\<close> nor \<open>undefined\<close>, and for the
  property names this program reads (none of them is a built-in property of strings,
  arrays or objects): the own property of an object, \<open>undefined\<close> otherwise.
\<close>

definition js_prop :: "jsval \<Rightarrow> string \<Rightarrow> jsval" where
  "js_prop v k = (case v of
      JObj m \<Rightarrow> (case fmlookup m k of Some x \<Rightarrow> x | None \<Rightarrow> JUndefined)
    | _ \<Rightarrow> JUndefined)"

text \<open>\<open>v?.k\<close>\<close>

definition opt_prop :: "jsval \<Rightarrow> string \<Rightarrow> jsval" where
  "opt_prop v k = (case v of JUndefined \<Rightarrow> JUndefined | JNull \<Rightarrow> JUndefined | _ \<Rightarrow> js_prop v k)"

text \<open>\<open>Object.prototype.hasOwnProperty.call(v, k)\<close> for \<open>typeof v === 'object'\<close>, \<open>v\<close> not null.\<close>

definition hasOwnProperty :: "jsval \<Rightarrow> string \<Rightarrow> bool" where
  "hasOwnProperty v k = (case v of JObj m \<Rightarrow> fmlookup m k \<noteq> None | _ \<Rightarrow> False)"

definition typeof_object :: "jsval \<Rightarrow> bool" where
  "typeof_object v = (case v of JObj m \<Rightarrow> True | JArr xs \<Rightarrow> True | JNull \<Rightarrow> True | _ \<Rightarrow> False)"

subsection \<open>Strings\<close>

text \<open>A string is the list of its code units; the messages of the program are Latin-1.\<close>

definition digit_char :: "nat \<Rightarrow> char" where
  "digit_char d = ''0123456789'' ! d"

text \<open>The decimal text of a non-negative integer (\<open>String(n)\<close>, \<open>`${n}`\<close>).\<close>

fun decimal :: "nat \<Rightarrow> string" where
  "decimal n = (if n < 10 then [digit_char n] else decimal (n div 10) @ [digit_char (n mod 10)])"

declare decimal.simps [simp del]

fun startsWith :: "string \<Rightarrow> string \<Rightarrow> bool" where
  "startsWith s [] = True"
| "startsWith [] (p # ps) = False"
| "startsWith (c # cs) (p # ps) = (c = p \<and> startsWith cs ps)"

fun str_includes :: "string \<Rightarrow> string \<Rightarrow> bool" where
  "str_includes [] sub = (sub = [])"
| "str_includes (c # cs) sub = (startsWith (c # cs) sub \<or> str_includes cs sub)"

definition lower_char :: "char \<Rightarrow> char" where
  "lower_char c = (let n = (of_char c :: nat) in
     if (65 \<le> n \<and> n \<le> 90) \<or> (192 \<le> n \<and> n \<le> 222 \<and> n \<noteq> 215) then char_of (n + 32) else c)"

definition toLowerCase :: "string \<Rightarrow> string" where
  "toLowerCase s = map lower_char s"

text \<open>\<open>s.split(sep)\<close> for a separator of one character.\<close>

fun str_split :: "char \<Rightarrow> string \<Rightarrow> string list" where
  "str_split sep [] = [[]]"
| "str_split sep (c # cs) =
     (if c = sep then [] # str_split sep cs
      else (case str_split sep cs of [] \<Rightarrow> [[c]] | p # ps \<Rightarrow> (c # p) # ps))"

text \<open>Truthiness of a value that is a string or \<open>null\<close>/\<open>undefined\<close>.\<close>

definition nonempty :: "string option \<Rightarrow> string option" where
  "nonempty x = (case x of None \<Rightarrow> None | Some s \<Rightarrow> if s = [] then None else Some s)"

section \<open>Errors\<close>

text \<open>
  Every failure of the program is \<open>throw new Error(message)\<close>, or an exception of the
  runtime. The kind names the class the design gives to the throw site; \<open>NativeError\<close>
  is an exception raised by the runtime or by the network (its text belongs to the engine).
\<close>

datatype error_kind =
    ConfigError
  | ValidationError
  | PolicyError
  | ProtocolError
  | AuthError
  | BackendError
  | NativeError

datatype error = Error error_kind (message: string)

fun kind :: "error \<Rightarrow> error_kind" where
  "kind (Error k m) = k"

section \<open>The runtime\<close>

text \<open>
  The built-in functions of the runtime that the program calls, as parameters:
  \<open>new URL(path, base).toString()\<close> (which may throw), \<open>JSON.stringify\<close>,
  \<open>JSON.parse\<close> (\<open>None\<close> when it throws), \<open>String(v)\<close> of a template literal,
  \<open>Buffer.byteLength\<close> and \<open>Number(s)\<close> (\<open>None\<close> for NaN).
\<close>

record platform =
  url_resolve :: "string \<Rightarrow> string \<Rightarrow> error + string"
  json_stringify :: "jsval \<Rightarrow> string"
  json_parse :: "string \<Rightarrow> jsval option"
  to_str :: "jsval \<Rightarrow> string"
  byte_length :: "string \<Rightarrow> nat"
  to_number :: "string \<Rightarrow> real option"

text \<open>\<open>`${v}`\<close>\<close>

definition template :: "platform \<Rightarrow> jsval \<Rightarrow> string" where
  "template pf v = (case v of JStr s \<Rightarrow> s | _ \<Rightarrow> to_str pf v)"

section \<open>The backend, seen through fetch\<close>

text \<open>
  An outbound request as \<open>fetch(url, init)\<close> receives it. The body is the value whose
  \<open>JSON.stringify\<close> text is sent.
\<close>

record fetch_req =
  rq_url :: string
  rq_method :: "string option"
  rq_headers :: "(string, string) fmap"
  rq_body :: "jsval option"

text \<open>
  A response: its status, what \<open>headers.get('content-type')\<close>,
  \<open>headers.getSetCookie\<close> (absent on older runtimes) and \<open>headers.get('set-cookie')\<close>
  return, and what \<open>text()\<close> and \<open>json()\<close> return (\<open>json()\<close> may reject).
\<close>

record response =
  resp_status :: nat
  resp_content_type :: "string option"
  resp_getSetCookie :: "string list option"
  resp_set_cookie :: "string option"
  resp_text :: string
  resp_json :: "error + jsval"

definition ok :: "response \<Rightarrow> bool" where
  "ok r = (200 \<le> resp_status r \<and> resp_status r \<le> 299)"

text \<open>
  The backend answers a request, given the requests sent before it, with a response or a
  network failure. \<open>fetch\<close> appends the request to the trace of requests sent.
\<close>

type_synonym backend = "fetch_req list \<Rightarrow> fetch_req \<Rightarrow> error + response"

definition fetch :: "backend \<Rightarrow> fetch_req list \<Rightarrow> fetch_req \<Rightarrow> (error + response) \<times> fetch_req list" where
  "fetch be tr rq = (be tr rq, tr @ [rq])"

section \<open>DocmostClient\<close>

record client =
  baseUrl :: string
  apiToken :: "string option"
  authCookie :: "string option"

definition DocmostClient :: "string \<Rightarrow> string option \<Rightarrow> client" where
  "DocmostClient base token = \<lparr>baseUrl = base, apiToken = token, authCookie = None\<rparr>"

record options =
  opt_method :: "string option"
  opt_body :: "jsval option"
  opt_headers :: "(string, string) fmap option"

definition o_acute :: char where "o_acute = CHR 0xF3"
definition a_acute :: char where "a_acute = CHR 0xE1"
definition e_acute :: char where "e_acute = CHR 0xE9"

definition msg_html :: string where
  "msg_html = ''Docmost devolvi'' @ [o_acute] @ '' HTML en lugar de JSON. Revisa que la ruta API sea correcta.''"

definition msg_status :: "platform \<Rightarrow> nat \<Rightarrow> jsval \<Rightarrow> string" where
  "msg_status pf st body =
     ''Docmost devolvi'' @ [o_acute] @ '' '' @ decimal st @ '': '' @
     (case body of JStr s \<Rightarrow> s | _ \<Rightarrow> json_stringify pf body)"

definition request ::
  "platform \<Rightarrow> client \<Rightarrow> backend \<Rightarrow> fetch_req list \<Rightarrow> string \<Rightarrow> options
    \<Rightarrow> (error + jsval) \<times> fetch_req list" where
  "request pf c be tr path opts =
    (case url_resolve pf path (baseUrl c) of
       Inl e \<Rightarrow> (Inl e, tr)
     | Inr url \<Rightarrow>
        (let headers0 = fmupd ''Content-Type'' ''application/json'' fmempty
                          ++\<^sub>f (case opt_headers opts of None \<Rightarrow> fmempty | Some h \<Rightarrow> h);
             headers =
               (case nonempty (apiToken c) of
                  Some t \<Rightarrow> fmupd ''Authorization'' (''Bearer '' @ t) headers0
                | None \<Rightarrow>
                   (case nonempty (authCookie c) of
                      Some k \<Rightarrow> fmupd ''Cookie'' (''authToken='' @ k) headers0
                    | None \<Rightarrow> headers0))
         in case fetch be tr
                   \<lparr>rq_url = url, rq_method = opt_method opts,
                    rq_headers = headers, rq_body = opt_body opts\<rparr> of
              (Inl e, tr') \<Rightarrow> (Inl e, tr')
            | (Inr r, tr') \<Rightarrow>
               (let contentType = (case resp_content_type r of None \<Rightarrow> [] | Some s \<Rightarrow> s)
                in case (if str_includes contentType ''application/json''
                         then resp_json r else Inr (JStr (resp_text r))) of
                     Inl e \<Rightarrow> (Inl e, tr')
                   | Inr body \<Rightarrow>
                      if \<not> ok r then
                        (Inl (Error BackendError (msg_status pf (resp_status r) body)), tr')
                      else if str_includes contentType ''text/html''
                              \<or> (case body of
                                    JStr s \<Rightarrow> str_includes (toLowerCase s) ''<!doctype html''
                                  | _ \<Rightarrow> False) then
                        (Inl (Error ConfigError msg_html), tr')
                      else if truthy body \<and> typeof_object body \<and> hasOwnProperty body ''data'' then
                        (Inr (js_prop body ''data''), tr')
                      else (Inr body, tr'))))"

definition post ::
  "platform \<Rightarrow> client \<Rightarrow> backend \<Rightarrow> fetch_req list \<Rightarrow> string \<Rightarrow> jsval
    \<Rightarrow> (error + jsval) \<times> fetch_req list" where
  "post pf c be tr path body =
     request pf c be tr path
       \<lparr>opt_method = Some ''POST'',
        opt_body = Some (js_or body (JObj fmempty)),
        opt_headers = None\<rparr>"

definition listSpaces ::
  "platform \<Rightarrow> client \<Rightarrow> backend \<Rightarrow> fetch_req list \<Rightarrow> (error + jsval) \<times> fetch_req list" where
  "listSpaces pf c be tr =
     post pf c be tr ''/api/spaces'' (JObj (fmap_of_list [(''page'', JNum 1), (''limit'', JNum 50)]))"

text \<open>
  The elements that \<open>...v\<close> spreads into an argument list: those of an array, the
  characters of a string; any other value is not iterable (a TypeError of the engine).
\<close>

definition msg_not_iterable :: string where
  "msg_not_iterable = ''Spread syntax requires ...iterable[Symbol.iterator] to be a function''"

definition iterate :: "jsval \<Rightarrow> error + jsval list" where
  "iterate v = (case v of
      JArr xs \<Rightarrow> Inr xs
    | JStr s \<Rightarrow> Inr (map (\<lambda>ch. JStr [ch]) s)
    | _ \<Rightarrow> Inl (Error NativeError msg_not_iterable))"

definition msg_spaceId :: string where
  "msg_spaceId = ''spaceId es obligatorio para listar p'' @ [a_acute] @ ''ginas.''"

text \<open>
  One pass of the body of the loop \<open>while (hasNext)\<close> of \<open>listPages\<close>, from the
  trace, the items and the page number at its start: the outcome of \<open>listPages\<close> when
  the pass ends the loop (an exception, or \<open>hasNext\<close> false), the trace, the items and
  the page number of the next pass otherwise.
\<close>

definition loop_pass ::
  "platform \<Rightarrow> client \<Rightarrow> backend \<Rightarrow> jsval \<Rightarrow> fetch_req list \<Rightarrow> jsval list \<Rightarrow> nat
    \<Rightarrow> ((error + jsval) \<times> fetch_req list) + (fetch_req list \<times> jsval list \<times> nat)" where
  "loop_pass pf c be spaceId tr items page =
     (case post pf c be tr ''/api/pages/sidebar-pages''
             (JObj (fmap_of_list [(''spaceId'', spaceId), (''page'', JNum (real page))])) of
        (Inl e, tr') \<Rightarrow> Inl (Inl e, tr')
      | (Inr result, tr') \<Rightarrow>
         (case iterate (js_or (opt_prop result ''items'') (JArr [])) of
            Inl e \<Rightarrow> Inl (Inl e, tr')
          | Inr pageItems \<Rightarrow>
             (let items' = items @ pageItems;
                  lastMeta = js_or (opt_prop result ''meta'') JNull;
                  hasNext = truthy (opt_prop lastMeta ''hasNextPage'')
              in if hasNext then Inr (tr', items', page + 1)
                 else Inl (Inr (JObj (fmap_of_list
                                [(''items'', JArr items'), (''meta'', lastMeta)])), tr'))))"

text \<open>
  The loop, entered with \<open>hasNext = true\<close>, run to its end: passes are made as long as
  they ask for another. It has no bound, so the result is an option: \<open>None\<close> when the
  loop never ends.
\<close>

partial_function (option) listPages_loop ::
  "platform \<Rightarrow> client \<Rightarrow> backend \<Rightarrow> jsval \<Rightarrow> fetch_req list \<Rightarrow> jsval list \<Rightarrow> nat
    \<Rightarrow> ((error + jsval) \<times> fetch_req list) option" where
  "listPages_loop pf c be spaceId tr items page =
     (case loop_pass pf c be spaceId tr items page of
        Inl out \<Rightarrow> Some out
      | Inr (tr', items', page') \<Rightarrow> listPages_loop pf c be spaceId tr' items' page')"

text \<open>
  The same loop watched for at most \<open>n\<close> passes: the outcome if the loop has ended by
  then, and in either case the requests sent so far.
\<close>

fun listPages_passes ::
  "nat \<Rightarrow> platform \<Rightarrow> client \<Rightarrow> backend \<Rightarrow> jsval \<Rightarrow> fetch_req list \<Rightarrow> jsval list \<Rightarrow> nat
    \<Rightarrow> (error + jsval) option \<times> fetch_req list" where
  "listPages_passes 0 pf c be spaceId tr items page = (None, tr)"
| "listPages_passes (Suc n) pf c be spaceId tr items page =
     (case loop_pass pf c be spaceId tr items page of
        Inl (r, tr') \<Rightarrow> (Some r, tr')
      | Inr (tr', items', page') \<Rightarrow> listPages_passes n pf c be spaceId tr' items' page')"

text \<open>An outcome that is there without the loop, as the watched call reports it.\<close>

definition ret :: "(error + jsval) \<times> fetch_req list \<Rightarrow> (error + jsval) option \<times> fetch_req list" where
  "ret out = (Some (fst out), snd out)"

text \<open>
  \<open>listPages\<close>, over the way its loop is run (\<open>loop\<close>) and the way an outcome without
  the loop is reported (\<open>out\<close>): to its end, or watched for a number of passes.
\<close>

definition listPages_with ::
  "(platform \<Rightarrow> client \<Rightarrow> backend \<Rightarrow> jsval \<Rightarrow> fetch_req list \<Rightarrow> jsval list \<Rightarrow> nat \<Rightarrow> 'r)
    \<Rightarrow> ((error + jsval) \<times> fetch_req list \<Rightarrow> 'r)
    \<Rightarrow> platform \<Rightarrow> client \<Rightarrow> backend \<Rightarrow> fetch_req list \<Rightarrow> jsval \<Rightarrow> 'r" where
  "listPages_with loop out pf c be tr spaceId =
     (if \<not> truthy spaceId then out (Inl (Error ValidationError msg_spaceId), tr)
      else loop pf c be spaceId tr [] 1)"

definition listPages ::
  "platform \<Rightarrow> client \<Rightarrow> backend \<Rightarrow> fetch_req list \<Rightarrow> jsval
    \<Rightarrow> ((error + jsval) \<times> fetch_req list) option" where
  "listPages pf c be tr spaceId = listPages_with listPages_loop Some pf c be tr spaceId"

definition listPages_upto ::
  "nat \<Rightarrow> platform \<Rightarrow> client \<Rightarrow> backend \<Rightarrow> fetch_req list \<Rightarrow> jsval
    \<Rightarrow> (error + jsval) option \<times> fetch_req list" where
  "listPages_upto n pf c be tr spaceId =
     listPages_with (listPages_passes n) ret pf c be tr spaceId"

definition msg_pageId_get :: string where
  "msg_pageId_get = ''pageId es obligatorio para obtener una p'' @ [a_acute] @ ''gina.''"

definition getPage ::
  "platform \<Rightarrow> client \<Rightarrow> backend \<Rightarrow> fetch_req list \<Rightarrow> jsval \<Rightarrow> (error + jsval) \<times> fetch_req list" where
  "getPage pf c be tr pageId =
     (if \<not> truthy pageId then (Inl (Error ValidationError msg_pageId_get), tr)
      else post pf c be tr ''/api/pages/info'' (JObj (fmap_of_list [(''pageId'', pageId)])))"

definition msg_query :: string where
  "msg_query = ''query es obligatorio para buscar.''"

definition searchPages ::
  "platform \<Rightarrow> client \<Rightarrow> backend \<Rightarrow> fetch_req list \<Rightarrow> jsval \<Rightarrow> (error + jsval) \<times> fetch_req list" where
  "searchPages pf c be tr query =
     (if \<not> truthy query then (Inl (Error ValidationError msg_query), tr)
      else post pf c be tr ''/api/search'' (JObj (fmap_of_list [(''query'', query)])))"

definition msg_create :: string where
  "msg_create = ''title, content y spaceId son obligatorios para crear una p'' @ [a_acute] @ ''gina.''"

definition createPage ::
  "platform \<Rightarrow> client \<Rightarrow> backend \<Rightarrow> fetch_req list \<Rightarrow> jsval \<Rightarrow> (error + jsval) \<times> fetch_req list" where
  "createPage pf c be tr payload =
     (let p = js_or payload (JObj fmempty);
          title = js_prop p ''title'';
          content = js_prop p ''content'';
          spaceId = js_prop p ''spaceId'';
          folderId = js_prop p ''folderId''
      in if \<not> truthy title \<or> \<not> truthy content \<or> \<not> truthy spaceId then
           (Inl (Error ValidationError msg_create), tr)
         else post pf c be tr ''/api/pages/create''
                (JObj (fmap_of_list
                   [(''title'', title), (''content'', content), (''spaceId'', spaceId),
                    (''parentPageId'', js_or folderId JNull)])))"

text \<open>
  The own enumerable properties that \<open>...v\<close> copies into an object literal: those of an
  object, the indexed elements of an array or of a string, none of any other value.
\<close>

definition indexed :: "jsval list \<Rightarrow> (string, jsval) fmap" where
  "indexed xs = fmap_of_list (zip (map decimal [0..<length xs]) xs)"

definition spread :: "jsval \<Rightarrow> (string, jsval) fmap" where
  "spread v = (case v of
      JObj m \<Rightarrow> m
    | JArr xs \<Rightarrow> indexed xs
    | JStr s \<Rightarrow> indexed (map (\<lambda>ch. JStr [ch]) s)
    | _ \<Rightarrow> fmempty)"

definition msg_pageId_update :: string where
  "msg_pageId_update = ''pageId es obligatorio para actualizar una p'' @ [a_acute] @ ''gina.''"

definition updatePage ::
  "platform \<Rightarrow> client \<Rightarrow> backend \<Rightarrow> fetch_req list \<Rightarrow> jsval \<Rightarrow> jsval
    \<Rightarrow> (error + jsval) \<times> fetch_req list" where
  "updatePage pf c be tr pageId payload =
     (if \<not> truthy pageId then (Inl (Error ValidationError msg_pageId_update), tr)
      else post pf c be tr ''/api/pages/update''
             (JObj (fmupd ''pageId'' pageId fmempty ++\<^sub>f spread (js_or payload (JObj fmempty)))))"

definition msg_login_args :: string where
  "msg_login_args = ''email y password son obligatorios para autenticarse.''"

definition msg_login_status :: "platform \<Rightarrow> nat \<Rightarrow> jsval \<Rightarrow> string" where
  "msg_login_status pf st body =
     ''Docmost devolvi'' @ [o_acute] @ '' '' @ decimal st @ '' al iniciar sesi'' @ [o_acute] @ ''n: '' @
     (case body of JStr s \<Rightarrow> s | _ \<Rightarrow> json_stringify pf body)"

definition msg_no_cookie :: string where
  "msg_no_cookie = ''No se pudo obtener la cookie authToken desde Docmost.''"

definition msg_no_token :: string where
  "msg_no_token = ''No se pudo extraer el valor de authToken.''"

text \<open>
  \<open>login\<close> stores the token in the client: it returns the token and the client. The
  first piece of a split always exists (\<open>str_split\<close> never returns the empty list).
\<close>

definition login ::
  "platform \<Rightarrow> client \<Rightarrow> backend \<Rightarrow> fetch_req list \<Rightarrow> string \<Rightarrow> string
    \<Rightarrow> (error + string \<times> client) \<times> fetch_req list" where
  "login pf c be tr email password =
    (if email = [] \<or> password = [] then (Inl (Error ValidationError msg_login_args), tr)
     else case url_resolve pf ''/api/auth/login'' (baseUrl c) of
       Inl e \<Rightarrow> (Inl e, tr)
     | Inr url \<Rightarrow>
        (case fetch be tr
                \<lparr>rq_url = url, rq_method = Some ''POST'',
                 rq_headers = fmupd ''Content-Type'' ''application/json'' fmempty,
                 rq_body = Some (JObj (fmap_of_list
                              [(''email'', JStr email), (''password'', JStr password)]))\<rparr> of
           (Inl e, tr') \<Rightarrow> (Inl e, tr')
         | (Inr r, tr') \<Rightarrow>
            (let contentType = (case resp_content_type r of None \<Rightarrow> [] | Some s \<Rightarrow> s)
             in case (if str_includes contentType ''application/json''
                      then resp_json r else Inr (JStr (resp_text r))) of
                  Inl e \<Rightarrow> (Inl e, tr')
                | Inr body \<Rightarrow>
                   if \<not> ok r then
                     (Inl (Error BackendError (msg_login_status pf (resp_status r) body)), tr')
                   else
                     (let cookies =
                            (case resp_getSetCookie r of
                               Some cs \<Rightarrow> cs
                             | None \<Rightarrow>
                                (case nonempty (resp_set_cookie r) of
                                   Some s \<Rightarrow> [s]
                                 | None \<Rightarrow> []))
                      in case find (\<lambda>cookie. startsWith cookie ''authToken='') cookies of
                           None \<Rightarrow> (Inl (Error AuthError msg_no_cookie), tr')
                         | Some authCookie' \<Rightarrow>
                            (case str_split (CHR ''='') (hd (str_split (CHR '';'') authCookie')) of
                               a # token # rest \<Rightarrow>
                                 if token = [] then (Inl (Error AuthError msg_no_token), tr')
                                 else (Inr (token, c\<lparr>authCookie := Some token\<rparr>), tr')
                             | _ \<Rightarrow> (Inl (Error AuthError msg_no_token), tr'))))))"

section \<open>Configuration\<close>

record credentials =
  email :: string
  password :: string

record config =
  cfg_baseUrl :: string
  cfg_apiToken :: "string option"
  cfg_credentials :: "credentials option"
  readOnly :: bool
  port :: real

text \<open>The variables of \<open>process.env\<close> that \<open>loadConfig\<close> reads.\<close>

record env =
  DOCMOST_BASE_URL :: "string option"
  DOCMOST_API_TOKEN :: "string option"
  DOCMOST_EMAIL :: "string option"
  DOCMOST_PASSWORD :: "string option"
  READ_ONLY :: "string option"
  PORT :: "string option"

definition DEFAULT_PORT :: real where
  "DEFAULT_PORT = 3000"

definition parseBoolean :: "string option \<Rightarrow> bool" where
  "parseBoolean v = (case v of
      None \<Rightarrow> False
    | Some s \<Rightarrow> toLowerCase s \<in> set [''true'', ''1'', ''yes'', ''on''])"

definition msg_base_url :: string where
  "msg_base_url =
     ''Define DOCMOST_BASE_URL para saber a qu'' @ [e_acute] @ '' instancia de Docmost apuntar.''"

definition msg_no_auth :: string where
  "msg_no_auth =
     ''Define DOCMOST_API_TOKEN o DOCMOST_EMAIL y DOCMOST_PASSWORD para autenticar las llamadas hacia Docmost.''"

text \<open>\<open>s.replace(/\/$/, '')\<close>\<close>

definition strip_slash :: "string \<Rightarrow> string" where
  "strip_slash s = (if s \<noteq> [] \<and> last s = CHR ''/'' then butlast s else s)"

definition loadConfig :: "platform \<Rightarrow> env \<Rightarrow> error + config" where
  "loadConfig pf e =
     (case nonempty (DOCMOST_BASE_URL e) of
        None \<Rightarrow> Inl (Error ConfigError msg_base_url)
      | Some base \<Rightarrow>
         (let hasToken = (nonempty (DOCMOST_API_TOKEN e) \<noteq> None);
              hasCredentials =
                (nonempty (DOCMOST_EMAIL e) \<noteq> None \<and> nonempty (DOCMOST_PASSWORD e) \<noteq> None)
          in if \<not> hasToken \<and> \<not> hasCredentials then Inl (Error ConfigError msg_no_auth)
             else Inr
               \<lparr>cfg_baseUrl = strip_slash base,
                cfg_apiToken = (if hasToken then DOCMOST_API_TOKEN e else None),
                cfg_credentials =
                  (if hasCredentials
                   then Some \<lparr>email = the (DOCMOST_EMAIL e), password = the (DOCMOST_PASSWORD e)\<rparr>
                   else None),
                readOnly = parseBoolean (READ_ONLY e),
                port = (case PORT e of
                          None \<Rightarrow> DEFAULT_PORT
                        | Some s \<Rightarrow>
                           (case to_number pf s of
                              None \<Rightarrow> DEFAULT_PORT
                            | Some n \<Rightarrow> if n = 0 then DEFAULT_PORT else n))\<rparr>))"

section \<open>The tool registry\<close>

record tool =
  name :: string
  description :: string
  params :: "(string \<times> string) list"

definition baseTools :: "tool list" where
  "baseTools =
    [\<lparr>name = ''list_spaces'',
      description = ''Devuelve los espacios disponibles en Docmost.'',
      params = []\<rparr>,
     \<lparr>name = ''list_pages'',
      description = ''Lista p'' @ [a_acute] @ ''ginas dentro de un espacio. Requiere spaceId.'',
      params = [(''spaceId'', ''string'')]\<rparr>,
     \<lparr>name = ''get_page'',
      description = ''Obtiene una p'' @ [a_acute] @ ''gina por su id.'',
      params = [(''pageId'', ''string'')]\<rparr>,
     \<lparr>name = ''search_pages'',
      description = ''Busca p'' @ [a_acute] @ ''ginas por texto libre.'',
      params = [(''query'', ''string'')]\<rparr>,
     \<lparr>name = ''create_page'',
      description = ''Crea una p'' @ [a_acute] @ ''gina nueva. Requiere title, content y spaceId.'',
      params = [(''title'', ''string''), (''content'', ''string''), (''spaceId'', ''string''),
                (''folderId'', ''string?'')]\<rparr>,
     \<lparr>name = ''update_page'',
      description = ''Actualiza una p'' @ [a_acute]
                      @ ''gina existente. Requiere pageId y los campos a modificar.'',
      params = [(''pageId'', ''string''), (''payload'', ''object'')]\<rparr>]"

text \<open>A descriptor as the value that the responses serialise.\<close>

definition tool_json :: "tool \<Rightarrow> jsval" where
  "tool_json t = JObj (fmap_of_list
     [(''name'', JStr (name t)),
      (''description'', JStr (description t)),
      (''params'', JObj (fmap_of_list (map (\<lambda>(k, ty). (k, JStr ty)) (params t))))])"

section \<open>The server\<close>

text \<open>The module variables \<open>tools\<close>, \<open>client\<close> and \<open>appConfig\<close>, once \<open>bootstrap\<close> has set them.\<close>

record server =
  appConfig :: config
  client :: client
  tools :: "tool list"

text \<open>\<open>v.k\<close> for any value: reading a property of \<open>null\<close> or \<open>undefined\<close> is a TypeError.\<close>

definition msg_null_prop :: "string \<Rightarrow> string \<Rightarrow> string" where
  "msg_null_prop what k =
     ''Cannot read properties of '' @ what @ '' (reading '' @ [CHR 0x27] @ k @ [CHR 0x27] @ '')''"

definition member :: "jsval \<Rightarrow> string \<Rightarrow> error + jsval" where
  "member v k = (case v of
      JNull \<Rightarrow> Inl (Error NativeError (msg_null_prop ''null'' k))
    | JUndefined \<Rightarrow> Inl (Error NativeError (msg_null_prop ''undefined'' k))
    | _ \<Rightarrow> Inr (js_prop v k))"

definition msg_tool_required :: string where
  "msg_tool_required = ''El campo \"tool\" es obligatorio.''"

definition msg_read_only :: string where
  "msg_read_only = ''El servidor est'' @ [a_acute]
     @ '' en modo READ_ONLY, no se permiten operaciones de escritura.''"

definition msg_unknown_tool :: "platform \<Rightarrow> jsval \<Rightarrow> string" where
  "msg_unknown_tool pf t = ''Herramienta desconocida: '' @ template pf t"

text \<open>
  \<open>handleToolCall\<close>, over the way the loop of \<open>listPages\<close> is run and the way an
  outcome without the loop is reported, as \<open>listPages_with\<close>. In the branch
  \<open>create_page\<close> the four reads of \<open>params\<close> fail together (when \<open>params\<close> is
  \<open>null\<close>), so the first read decides.
\<close>

definition handleToolCall_with ::
  "(platform \<Rightarrow> client \<Rightarrow> backend \<Rightarrow> jsval \<Rightarrow> fetch_req list \<Rightarrow> jsval list \<Rightarrow> nat \<Rightarrow> 'r)
    \<Rightarrow> ((error + jsval) \<times> fetch_req list \<Rightarrow> 'r)
    \<Rightarrow> platform \<Rightarrow> server \<Rightarrow> backend \<Rightarrow> fetch_req list \<Rightarrow> jsval \<Rightarrow> 'r" where
  "handleToolCall_with loop out pf s be tr body =
    (let b = js_or body (JObj fmempty);
         tool = js_prop b ''tool'';
         params = (if js_prop b ''params'' = JUndefined then JObj fmempty else js_prop b ''params'')
     in if \<not> truthy tool then out (Inl (Error ValidationError msg_tool_required), tr)
        else
         (let isWriteTool = (tool = JStr ''create_page'' \<or> tool = JStr ''update_page'')
          in if readOnly (appConfig s) \<and> isWriteTool then
               out (Inl (Error PolicyError msg_read_only), tr)
             else if tool = JStr ''list_spaces'' then out (listSpaces pf (client s) be tr)
             else if tool = JStr ''list_pages'' then
               (case member params ''spaceId'' of
                  Inl e \<Rightarrow> out (Inl e, tr)
                | Inr spaceId \<Rightarrow> listPages_with loop out pf (client s) be tr spaceId)
             else if tool = JStr ''get_page'' then
               (case member params ''pageId'' of
                  Inl e \<Rightarrow> out (Inl e, tr)
                | Inr pageId \<Rightarrow> out (getPage pf (client s) be tr pageId))
             else if tool = JStr ''search_pages'' then
               (case member params ''query'' of
                  Inl e \<Rightarrow> out (Inl e, tr)
                | Inr query \<Rightarrow> out (searchPages pf (client s) be tr query))
             else if tool = JStr ''create_page'' then
               (case member params ''title'' of
                  Inl e \<Rightarrow> out (Inl e, tr)
                | Inr title \<Rightarrow>
                   out (createPage pf (client s) be tr
                     (JObj (fmap_of_list
                        [(''title'', title),
                         (''content'', js_prop params ''content''),
                         (''spaceId'', js_prop params ''spaceId''),
                         (''folderId'', js_prop params ''folderId'')]))))
             else if tool = JStr ''update_page'' then
               (case member params ''pageId'' of
                  Inl e \<Rightarrow> out (Inl e, tr)
                | Inr pageId \<Rightarrow>
                   out (updatePage pf (client s) be tr pageId (js_prop params ''payload'')))
             else out (Inl (Error ValidationError (msg_unknown_tool pf tool)), tr)))"

text \<open>The call run to its end: \<open>None\<close> when the loop of \<open>listPages\<close> never ends.\<close>

definition handleToolCall ::
  "platform \<Rightarrow> server \<Rightarrow> backend \<Rightarrow> fetch_req list \<Rightarrow> jsval
    \<Rightarrow> ((error + jsval) \<times> fetch_req list) option" where
  "handleToolCall pf s be tr body = handleToolCall_with listPages_loop Some pf s be tr body"

text \<open>
  The same call watched until it ends or until the loop of \<open>listPages\<close> has made
  \<open>n\<close> passes: the outcome if it has ended by then, and the requests sent so far.
\<close>

definition handleToolCall_upto ::
  "nat \<Rightarrow> platform \<Rightarrow> server \<Rightarrow> backend \<Rightarrow> fetch_req list \<Rightarrow> jsval
    \<Rightarrow> (error + jsval) option \<times> fetch_req list" where
  "handleToolCall_upto n pf s be tr body =
     handleToolCall_with (listPages_passes n) ret pf s be tr body"

definition msg_rpc_format :: string where
  "msg_rpc_format = ''Formato JSON-RPC inv'' @ [a_acute] @ ''lido.''"

definition msg_unknown_method :: "platform \<Rightarrow> jsval \<Rightarrow> string" where
  "msg_unknown_method pf m = ''M'' @ [e_acute] @ ''todo JSON-RPC desconocido: '' @ template pf m"

definition capabilities :: jsval where
  "capabilities = JObj (fmap_of_list
     [(''capabilities'', JObj (fmap_of_list
        [(''tools'', JObj (fmap_of_list [(''list'', JBool True), (''call'', JBool True)]))]))])"

text \<open>The result \<open>{ id, result }\<close> is the pair of the two.\<close>

definition handleJsonRpc ::
  "platform \<Rightarrow> server \<Rightarrow> backend \<Rightarrow> fetch_req list \<Rightarrow> jsval
    \<Rightarrow> ((error + jsval \<times> jsval) \<times> fetch_req list) option" where
  "handleJsonRpc pf s be tr body =
    (let b = js_or body (JObj fmempty);
         jsonrpc = js_prop b ''jsonrpc'';
         method = js_prop b ''method'';
         id' = js_prop b ''id'';
         params = js_prop b ''params''
     in if \<not> truthy jsonrpc \<or> \<not> truthy method then
          Some (Inl (Error ProtocolError msg_rpc_format), tr)
        else if method = JStr ''initialize'' then Some (Inr (id', capabilities), tr)
        else if method = JStr ''list_tools'' then
          Some (Inr (id', JObj (fmap_of_list [(''tools'', JArr (map tool_json (tools s)))])), tr)
        else if method = JStr ''call_tool'' then
          (let tool = opt_prop params ''name'';
               toolParams = js_or (opt_prop params ''arguments'') (JObj fmempty)
           in case handleToolCall pf s be tr
                     (JObj (fmap_of_list [(''tool'', tool), (''params'', toolParams)])) of
                None \<Rightarrow> None
              | Some (Inl e, tr') \<Rightarrow> Some (Inl e, tr')
              | Some (Inr result, tr') \<Rightarrow>
                  Some (Inr (id', JObj (fmap_of_list [(''content'', result)])), tr'))
        else Some (Inl (Error ProtocolError (msg_unknown_method pf method)), tr))"

text \<open>
  \<open>bootstrap\<close> up to the creation of the listener: the configuration, the advertised
  tools, the client, and the login when no static token is configured.
\<close>

definition bootstrap ::
  "platform \<Rightarrow> env \<Rightarrow> backend \<Rightarrow> fetch_req list \<Rightarrow> (error + server) \<times> fetch_req list" where
  "bootstrap pf e be tr =
    (case loadConfig pf e of
       Inl err \<Rightarrow> (Inl err, tr)
     | Inr cfg \<Rightarrow>
        (let ts = (if readOnly cfg
                   then filter (\<lambda>t. name t \<noteq> ''create_page'' \<and> name t \<noteq> ''update_page'') baseTools
                   else baseTools);
             c = DocmostClient (cfg_baseUrl cfg) (cfg_apiToken cfg)
         in if nonempty (cfg_apiToken cfg) = None \<and> cfg_credentials cfg \<noteq> None then
              (case login pf c be tr (email (the (cfg_credentials cfg)))
                      (password (the (cfg_credentials cfg))) of
                 (Inl err, tr') \<Rightarrow> (Inl err, tr')
               | (Inr (token, c'), tr') \<Rightarrow>
                   (Inr \<lparr>appConfig = cfg, client = c', tools = ts\<rparr>, tr'))
            else (Inr \<lparr>appConfig = cfg, client = c, tools = ts\<rparr>, tr)))"

section \<open>The HTTP adapter\<close>

text \<open>
  An inbound request: method, url, the two headers the handler reads, and the body as
  the stream delivers it (the whole text, or the error of the stream).
\<close>

record http_request =
  req_method :: string
  req_url :: string
  hdr_host :: "string option"
  hdr_x_forwarded_proto :: "string option"
  req_data :: "error + string"

text \<open>
  What the handler writes: status, headers, and the value whose \<open>JSON.stringify\<close> text
  is the body (\<open>None\<close> for an empty body).
\<close>

record http_response =
  res_status :: nat
  res_headers :: "(string \<times> string) list"
  res_payload :: "jsval option"

text \<open>
  What becomes of a response that the handler writes: it is sent, or it is lost, because
  \<open>parseJsonBody\<close> had destroyed the connection (\<open>req.destroy()\<close>) before the handler
  wrote it, and nothing reaches the client.
\<close>

datatype reply = Sent http_response | Dropped http_response

definition respond :: "bool \<Rightarrow> http_response \<Rightarrow> reply" where
  "respond destroyed r = (if destroyed then Dropped r else Sent r)"

definition sendJson :: "platform \<Rightarrow> nat \<Rightarrow> jsval \<Rightarrow> http_response" where
  "sendJson pf statusCode p =
     \<lparr>res_status = statusCode,
      res_headers =
        [(''Content-Type'', ''application/json''),
         (''Content-Length'', decimal (byte_length pf (json_stringify pf p))),
         (''Access-Control-Allow-Origin'', ''*''),
         (''Access-Control-Allow-Headers'', ''Content-Type, Authorization, Accept'')],
      res_payload = Some p\<rparr>"

definition sendJsonRpc :: "platform \<Rightarrow> jsval \<Rightarrow> (string, jsval) fmap \<Rightarrow> http_response" where
  "sendJsonRpc pf id' p =
     (let body = JObj (fmap_of_list [(''jsonrpc'', JStr ''2.0''), (''id'', id')] ++\<^sub>f p)
      in \<lparr>res_status = 200,
          res_headers =
            [(''Content-Type'', ''application/json''),
             (''Content-Length'', decimal (byte_length pf (json_stringify pf body))),
             (''Access-Control-Allow-Origin'', ''*''),
             (''Access-Control-Allow-Headers'', ''Content-Type, Authorization, Accept'')],
          res_payload = Some body\<rparr>)"

definition sendJsonRpcError :: "platform \<Rightarrow> jsval \<Rightarrow> real \<Rightarrow> string \<Rightarrow> http_response" where
  "sendJsonRpcError pf id' code msg =
     sendJsonRpc pf id'
       (fmap_of_list
          [(''error'', JObj (fmap_of_list [(''code'', JNum code), (''message'', JStr msg)]))])"

definition notFound :: "platform \<Rightarrow> http_response" where
  "notFound pf = sendJson pf 404 (JObj (fmap_of_list [(''error'', JStr ''Ruta no encontrada'')]))"

definition methodNotAllowed :: "platform \<Rightarrow> http_response" where
  "methodNotAllowed pf =
     sendJson pf 405
       (JObj (fmap_of_list [(''error'', JStr (''M'' @ [e_acute] @ ''todo no permitido''))]))"

definition msg_too_large :: string where
  "msg_too_large = ''El cuerpo de la petici'' @ [o_acute] @ ''n es demasiado grande.''"

definition msg_invalid_json :: string where
  "msg_invalid_json = ''El cuerpo debe ser JSON v'' @ [a_acute] @ ''lido.''"

text \<open>
  The promise of \<open>parseJsonBody\<close>, and whether it has called \<open>req.destroy()\<close>: the
  length test made after each chunk rejects, and destroys the connection, exactly when
  the whole text is longer than the limit.
\<close>

definition parseJsonBody :: "platform \<Rightarrow> http_request \<Rightarrow> (error + jsval) \<times> bool" where
  "parseJsonBody pf req =
     (case req_data req of
        Inl e \<Rightarrow> (Inl e, False)
      | Inr data \<Rightarrow>
         if length data > 5000000 then (Inl (Error ProtocolError msg_too_large), True)
         else if data = [] then (Inr (JObj fmempty), False)
         else (case json_parse pf data of
                 None \<Rightarrow> (Inl (Error ProtocolError msg_invalid_json), False)
               | Some v \<Rightarrow> (Inr v, False)))"

text \<open>The \<open>try\<close>/\<open>catch\<close> block of the routes \<open>POST /\<close> and \<open>POST /mcp\<close>.\<close>

definition jsonRpcRoute ::
  "platform \<Rightarrow> server \<Rightarrow> backend \<Rightarrow> fetch_req list \<Rightarrow> http_request
    \<Rightarrow> (reply \<times> fetch_req list) option" where
  "jsonRpcRoute pf s be tr req =
     (case parseJsonBody pf req of
        (Inl e, destroyed) \<Rightarrow>
          Some (respond destroyed (sendJsonRpcError pf JNull (- 32600) (message e)), tr)
      | (Inr body, destroyed) \<Rightarrow>
         (case handleJsonRpc pf s be tr body of
            None \<Rightarrow> None
          | Some (Inl e, tr') \<Rightarrow>
              Some (respond destroyed (sendJsonRpcError pf JNull (- 32600) (message e)), tr')
          | Some (Inr (id', result), tr') \<Rightarrow>
              Some (respond destroyed
                      (sendJsonRpc pf id' (fmap_of_list [(''result'', result)])), tr')))"

text \<open>The \<open>try\<close>/\<open>catch\<close> block of the route \<open>POST /mcp/tool-call\<close>.\<close>

definition toolCallRoute ::
  "platform \<Rightarrow> server \<Rightarrow> backend \<Rightarrow> fetch_req list \<Rightarrow> http_request
    \<Rightarrow> (reply \<times> fetch_req list) option" where
  "toolCallRoute pf s be tr req =
     (case parseJsonBody pf req of
        (Inl e, destroyed) \<Rightarrow>
          Some (respond destroyed
                  (sendJson pf 400 (JObj (fmap_of_list [(''error'', JStr (message e))]))), tr)
      | (Inr body, destroyed) \<Rightarrow>
         (case handleToolCall pf s be tr body of
            None \<Rightarrow> None
          | Some (Inl e, tr') \<Rightarrow>
              Some (respond destroyed
                      (sendJson pf 400 (JObj (fmap_of_list [(''error'', JStr (message e))]))), tr')
          | Some (Inr result, tr') \<Rightarrow>
              Some (respond destroyed
                      (sendJson pf 200 (JObj (fmap_of_list [(''result'', result)]))), tr')))"

definition wellKnown :: "platform \<Rightarrow> server \<Rightarrow> http_request \<Rightarrow> http_response" where
  "wellKnown pf s req =
     (let proto = (case nonempty (hdr_x_forwarded_proto req) of Some x \<Rightarrow> x | None \<Rightarrow> ''http'');
          host = (case nonempty (hdr_host req) of
                    Some h \<Rightarrow> h
                  | None \<Rightarrow> ''0.0.0.0:'' @ template pf (JNum (port (appConfig s))));
          base = proto @ ''://'' @ host
      in sendJson pf 200 (JObj (fmap_of_list
           [(''protocol'', JStr ''mcp-http-1''),
            (''endpoints'', JObj (fmap_of_list
               [(''tools'', JStr (base @ ''/mcp/tools'')),
                (''call'', JStr (base @ ''/mcp/tool-call''))]))])))"

text \<open>The request listener of \<open>http.createServer\<close>.\<close>

definition handler ::
  "platform \<Rightarrow> server \<Rightarrow> backend \<Rightarrow> fetch_req list \<Rightarrow> http_request
    \<Rightarrow> (reply \<times> fetch_req list) option" where
  "handler pf s be tr req =
    (let method = req_method req; url = req_url req
     in if method = ''OPTIONS'' then
          Some (Sent \<lparr>res_status = 204,
                      res_headers =
                        [(''Access-Control-Allow-Origin'', ''*''),
                         (''Access-Control-Allow-Methods'', ''GET,POST,OPTIONS''),
                         (''Access-Control-Allow-Headers'', ''Content-Type, Authorization, Accept'')],
                      res_payload = None\<rparr>, tr)
        else
         (let isWellKnown =
                ((url = ''/.well-known/mcp'' \<or> url = ''/mcp/.well-known/mcp'') \<and> method = ''GET'')
          in if url = ''/'' \<and> method = ''GET'' then
               Some (Sent (sendJson pf 200 (JObj (fmap_of_list
                       [(''message'', JStr (''Docmost MCP en ejecuci'' @ [o_acute] @ ''n'')),
                        (''tools'', JArr (map tool_json (tools s)))]))), tr)
             else if url = ''/'' \<and> method = ''POST'' then jsonRpcRoute pf s be tr req
             else if url = ''/health'' \<and> method = ''GET'' then
               Some (Sent (sendJson pf 200 (JObj (fmap_of_list [(''status'', JStr ''ok'')]))), tr)
             else if url = ''/mcp/tools'' \<and> method = ''GET'' then
               Some (Sent (sendJson pf 200
                       (JObj (fmap_of_list [(''tools'', JArr (map tool_json (tools s)))]))), tr)
             else if url = ''/mcp/tool-call'' \<and> method = ''POST'' then
               toolCallRoute pf s be tr req
             else if (url = ''/mcp'' \<or> url = ''/mc'' \<or> url = ''/m'') \<and> method = ''POST'' then
               jsonRpcRoute pf s be tr req
             else if isWellKnown then Some (Sent (wellKnown pf s req), tr)
             else if method \<noteq> ''GET'' \<and> method \<noteq> ''POST'' then Some (Sent (methodNotAllowed pf), tr)
             else Some (Sent (notFound pf), tr)))"

section \<open>Notions used to state the properties\<close>

text \<open>
  The headers of a request that \<open>request\<close> sends when the caller passes none: the
  content type and the one credential of the client.
\<close>

definition client_headers :: "client \<Rightarrow> (string, string) fmap" where
  "client_headers c =
     (case nonempty (apiToken c) of
        Some t \<Rightarrow> fmap_of_list [(''Content-Type'', ''application/json''), (''Authorization'', ''Bearer '' @ t)]
      | None \<Rightarrow>
         (case nonempty (authCookie c) of
            Some k \<Rightarrow> fmap_of_list [(''Content-Type'', ''application/json''), (''Cookie'', ''authToken='' @ k)]
          | None \<Rightarrow> fmap_of_list [(''Content-Type'', ''application/json'')]))"

text \<open>The request that \<open>post\<close> hands to \<open>fetch\<close>.\<close>

definition post_req :: "client \<Rightarrow> string \<Rightarrow> jsval \<Rightarrow> fetch_req" where
  "post_req c url body =
     \<lparr>rq_url = url, rq_method = Some ''POST'', rq_headers = client_headers c,
      rq_body = Some body\<rparr>"

text \<open>A successful JSON response with the given parsed body.\<close>

definition json_response :: "jsval \<Rightarrow> response" where
  "json_response body =
     \<lparr>resp_status = 200, resp_content_type = Some ''application/json'',
      resp_getSetCookie = None, resp_set_cookie = None,
      resp_text = [], resp_json = Inr body\<rparr>"

text \<open>A backend whose answer to the \<open>k\<close>-th request (from 0) is the body \<open>f k\<close>.\<close>

definition seq_backend :: "(nat \<Rightarrow> jsval) \<Rightarrow> backend" where
  "seq_backend f = (\<lambda>tr rq. Inr (json_response (f (length tr))))"

text \<open>A page of the sidebar listing, and the result of \<open>listPages\<close>: \<open>{ items, meta }\<close>.\<close>

definition sidebar_page :: "jsval list \<Rightarrow> jsval \<Rightarrow> jsval" where
  "sidebar_page its meta = JObj (fmap_of_list [(''items'', JArr its), (''meta'', meta)])"

text \<open>What the loop reads in the metadata of a page: \<open>Boolean(lastMeta?.hasNextPage)\<close>.\<close>

definition has_next :: "jsval \<Rightarrow> bool" where
  "has_next meta = truthy (opt_prop (js_or meta JNull) ''hasNextPage'')"

text \<open>The request of one pass of the loop.\<close>

definition sidebar_req :: "client \<Rightarrow> string \<Rightarrow> jsval \<Rightarrow> nat \<Rightarrow> fetch_req" where
  "sidebar_req c url spaceId page =
     post_req c url (JObj (fmap_of_list [(''spaceId'', spaceId), (''page'', JNum (real page))]))"

text \<open>The backend answers the request number \<open>n\<close> with the JSON body \<open>body\<close>.\<close>

definition answers :: "backend \<Rightarrow> nat \<Rightarrow> jsval \<Rightarrow> bool" where
  "answers be n body = (\<forall>tr rq. length tr = n \<longrightarrow> be tr rq = Inr (json_response body))"

text \<open>
  A backend that serves a finite sequence of pages, each given by its items and its
  metadata, and fails once they are exhausted.
\<close>

definition paged_backend :: "(jsval list \<times> jsval) list \<Rightarrow> backend" where
  "paged_backend pages =
     (\<lambda>tr rq. if length tr < length pages
              then Inr (json_response (sidebar_page (fst (pages ! length tr)) (snd (pages ! length tr))))
              else Inl (Error NativeError ''fetch failed''))"

text \<open>The content type and the body as \<open>request\<close> reads them from a response.\<close>

definition content_type :: "response \<Rightarrow> string" where
  "content_type r = (case resp_content_type r of None \<Rightarrow> [] | Some s \<Rightarrow> s)"

definition read_body :: "response \<Rightarrow> error + jsval" where
  "read_body r = (if str_includes (content_type r) ''application/json''
                  then resp_json r else Inr (JStr (resp_text r)))"

text \<open>The content type or the text read from the response signals an HTML document.\<close>

definition signals_html :: "response \<Rightarrow> jsval \<Rightarrow> bool" where
  "signals_html r body =
     (str_includes (content_type r) ''text/html''
      \<or> (case body of JStr s \<Rightarrow> str_includes (toLowerCase s) ''<!doctype html'' | _ \<Rightarrow> False))"

subsection \<open>Concrete inputs\<close>

text \<open>The request texts of the examples and the values they parse to.\<close>

definition rpc_unknown_text :: string where
  "rpc_unknown_text = ''{\"jsonrpc\":\"2.0\",\"method\":\"nope\",\"id\":7}''"

definition rpc_unknown :: jsval where
  "rpc_unknown = JObj (fmap_of_list
     [(''jsonrpc'', JStr ''2.0''), (''method'', JStr ''nope''), (''id'', JNum 7)])"

definition rpc_list_tools_text :: string where
  "rpc_list_tools_text = ''{\"jsonrpc\":\"2.0\",\"method\":\"list_tools\",\"id\":1}''"

definition rpc_list_tools :: jsval where
  "rpc_list_tools = JObj (fmap_of_list
     [(''jsonrpc'', JStr ''2.0''), (''method'', JStr ''list_tools''), (''id'', JNum 1)])"

definition call_unknown_text :: string where
  "call_unknown_text = ''{\"tool\":\"delete_page\"}''"

definition call_unknown :: jsval where
  "call_unknown = JObj (fmap_of_list [(''tool'', JStr ''delete_page'')])"

text \<open>
  A runtime for the examples: URLs resolve by concatenation and \<open>JSON.parse\<close> knows the
  request texts above.
\<close>

definition test_platform :: platform where
  "test_platform =
     \<lparr>url_resolve = (\<lambda>path base. Inr (base @ path)),
      json_stringify = (\<lambda>v. ''{}''),
      json_parse = map_of
        [(rpc_unknown_text, rpc_unknown),
         (rpc_list_tools_text, rpc_list_tools),
         (call_unknown_text, call_unknown)],
      to_str = (\<lambda>v. ''[object Object]''),
      byte_length = length,
      to_number = (\<lambda>s. None)\<rparr>"

definition test_client :: client where
  "test_client = DocmostClient ''http://docmost.test'' (Some ''secret'')"

definition html_response :: "nat \<Rightarrow> response" where
  "html_response st =
     \<lparr>resp_status = st, resp_content_type = Some ''text/html; charset=utf-8'',
      resp_getSetCookie = None, resp_set_cookie = None,
      resp_text = ''<!DOCTYPE html><html></html>'',
      resp_json = Inl (Error NativeError ''Unexpected token'')\<rparr>"

text \<open>Page metadata that reports whether a next page exists, and a page that always does.\<close>

definition next_meta :: "bool \<Rightarrow> jsval" where
  "next_meta b = JObj (fmap_of_list [(''hasNextPage'', JBool b)])"

definition always_next :: "nat \<Rightarrow> jsval" where
  "always_next k = sidebar_page [JStr ''page''] (next_meta True)"

text \<open>
  A page that carries the flag beside the items, with no field \<open>meta\<close>, and a backend that
  serves a finite sequence of JSON bodies and fails once they are exhausted.
\<close>

definition flat_page :: "jsval list \<Rightarrow> bool \<Rightarrow> jsval" where
  "flat_page its b = JObj (fmap_of_list [(''items'', JArr its), (''hasNextPage'', JBool b)])"

definition body_backend :: "jsval list \<Rightarrow> backend" where
  "body_backend bodies =
     (\<lambda>tr rq. if length tr < length bodies
              then Inr (json_response (bodies ! length tr))
              else Inl (Error NativeError ''fetch failed''))"

text \<open>A server state with a static token, in either mode, and a valid call of \<open>create_page\<close>.\<close>

definition test_config :: "bool \<Rightarrow> config" where
  "test_config ro =
     \<lparr>cfg_baseUrl = ''http://docmost.test'', cfg_apiToken = Some ''secret'',
      cfg_credentials = None, readOnly = ro, port = 3000\<rparr>"

definition test_server :: "bool \<Rightarrow> server" where
  "test_server ro =
     \<lparr>appConfig = test_config ro, client = test_client,
      tools = (if ro
               then filter (\<lambda>t. name t \<noteq> ''create_page'' \<and> name t \<noteq> ''update_page'') baseTools
               else baseTools)\<rparr>"

definition create_call :: jsval where
  "create_call = JObj (fmap_of_list
     [(''tool'', JStr ''create_page''),
      (''params'', JObj (fmap_of_list
         [(''title'', JStr ''Notes''), (''content'', JStr ''Hello''), (''spaceId'', JStr ''space-1'')]))])"

text \<open>A payload for \<open>createPage\<close>, with or without a folder.\<close>

definition page_payload :: "jsval option \<Rightarrow> jsval" where
  "page_payload folder =
     JObj (fmap_of_list
       ([(''title'', JStr ''Notes''), (''content'', JStr ''Hello''), (''spaceId'', JStr ''space-1'')]
        @ (case folder of None \<Rightarrow> [] | Some f \<Rightarrow> [(''folderId'', f)])))"

text \<open>The two shapes of an envelope response.\<close>

definition rpc_result_body :: "jsval \<Rightarrow> jsval \<Rightarrow> jsval" where
  "rpc_result_body i r =
     JObj (fmap_of_list [(''jsonrpc'', JStr ''2.0''), (''id'', i), (''result'', r)])"

definition rpc_error_body :: "jsval \<Rightarrow> real \<Rightarrow> string \<Rightarrow> jsval" where
  "rpc_error_body i code msg =
     JObj (fmap_of_list
       [(''jsonrpc'', JStr ''2.0''), (''id'', i),
        (''error'', JObj (fmap_of_list [(''code'', JNum code), (''message'', JStr msg)]))])"

text \<open>The urls of the envelope routes.\<close>

definition is_rpc_url :: "string \<Rightarrow> bool" where
  "is_rpc_url url = (url = ''/'' \<or> url = ''/mcp'' \<or> url = ''/mc'' \<or> url = ''/m'')"

text \<open>A direct tool call fails: its body is rejected, or the dispatch throws.\<close>

definition toolCallFails ::
  "platform \<Rightarrow> server \<Rightarrow> backend \<Rightarrow> fetch_req list \<Rightarrow> http_request \<Rightarrow> bool" where
  "toolCallFails pf s be tr req =
     (case parseJsonBody pf req of
        (Inl e, destroyed) \<Rightarrow> True
      | (Inr body, destroyed) \<Rightarrow>
         (case handleToolCall pf s be tr body of
            Some (Inl e, tr') \<Rightarrow> True
          | _ \<Rightarrow> False))"

text \<open>An envelope request fails: its body is rejected, or \<open>handleJsonRpc\<close> throws.\<close>

definition jsonRpcFails ::
  "platform \<Rightarrow> server \<Rightarrow> backend \<Rightarrow> fetch_req list \<Rightarrow> http_request \<Rightarrow> bool" where
  "jsonRpcFails pf s be tr req =
     (case parseJsonBody pf req of
        (Inl e, destroyed) \<Rightarrow> True
      | (Inr body, destroyed) \<Rightarrow>
         (case handleJsonRpc pf s be tr body of
            Some (Inl e, tr') \<Rightarrow> True
          | _ \<Rightarrow> False))"

text \<open>The body of the request is longer than the limit of \<open>parseJsonBody\<close>.\<close>

definition oversize :: "http_request \<Rightarrow> bool" where
  "oversize req = (case req_data req of Inl e \<Rightarrow> False | Inr data \<Rightarrow> length data > 5000000)"

text \<open>The response that reaches the client, if the handler ends and one does.\<close>

definition sent_response :: "(reply \<times> fetch_req list) option \<Rightarrow> http_response option" where
  "sent_response out = (case out of Some (Sent r, tr) \<Rightarrow> Some r | _ \<Rightarrow> None)"

text \<open>An inbound \<open>POST\<close> with the given body text.\<close>

definition post_request :: "string \<Rightarrow> string \<Rightarrow> http_request" where
  "post_request url text =
     \<lparr>req_method = ''POST'', req_url = url, hdr_host = None, hdr_x_forwarded_proto = None,
      req_data = Inr text\<rparr>"

text \<open>
  The trace \<open>tr'\<close> extends \<open>tr\<close> by requests that all carry exactly the headers
  \<open>hs\<close>.
\<close>

definition sent_with :: "(string, string) fmap \<Rightarrow> fetch_req list \<Rightarrow> fetch_req list \<Rightarrow> bool" where
  "sent_with hs tr tr' = (\<exists>new. tr' = tr @ new \<and> (\<forall>rq \<in> set new. rq_headers rq = hs))"

text \<open>The content type alone, or with one credential header.\<close>

definition json_headers :: "(string \<times> string) option \<Rightarrow> (string, string) fmap" where
  "json_headers cred =
     fmap_of_list ((''Content-Type'', ''application/json'')
                   # (case cred of None \<Rightarrow> [] | Some hv \<Rightarrow> [hv]))"

text \<open>
  An environment with an email and a password and no static token, a backend that sets
  the session cookie, and the server and the login request that \<open>bootstrap\<close> yields.
\<close>

definition login_env :: env where
  "login_env =
     \<lparr>DOCMOST_BASE_URL = Some ''http://docmost.test/'', DOCMOST_API_TOKEN = None,
      DOCMOST_EMAIL = Some ''ana@example.org'', DOCMOST_PASSWORD = Some ''hunter2'',
      READ_ONLY = None, PORT = None\<rparr>"

definition cookie_backend :: backend where
  "cookie_backend = (\<lambda>tr rq. Inr
     \<lparr>resp_status = 200, resp_content_type = Some ''application/json'',
      resp_getSetCookie = Some [''authToken=abc123; Path=/; HttpOnly''],
      resp_set_cookie = None, resp_text = [], resp_json = Inr (JObj fmempty)\<rparr>)"

definition cookie_server :: server where
  "cookie_server =
     \<lparr>appConfig =
        \<lparr>cfg_baseUrl = ''http://docmost.test'', cfg_apiToken = None,
         cfg_credentials = Some \<lparr>email = ''ana@example.org'', password = ''hunter2''\<rparr>,
         readOnly = False, port = DEFAULT_PORT\<rparr>,
      client = \<lparr>baseUrl = ''http://docmost.test'', apiToken = None, authCookie = Some ''abc123''\<rparr>,
      tools = baseTools\<rparr>"

definition login_req :: fetch_req where
  "login_req =
     \<lparr>rq_url = ''http://docmost.test/api/auth/login'', rq_method = Some ''POST'',
      rq_headers = json_headers None,
      rq_body = Some (JObj (fmap_of_list
         [(''email'', JStr ''ana@example.org''), (''password'', JStr ''hunter2'')]))\<rparr>"

text \<open>An environment with a static token, in either mode.\<close>

definition token_env :: "bool \<Rightarrow> env" where
  "token_env ro =
     \<lparr>DOCMOST_BASE_URL = Some ''http://docmost.test'', DOCMOST_API_TOKEN = Some ''secret'',
      DOCMOST_EMAIL = None, DOCMOST_PASSWORD = None,
      READ_ONLY = (if ro then Some ''true'' else None), PORT = None\<rparr>"

text \<open>A body one character longer than the limit of \<open>parseJsonBody\<close>.\<close>

definition oversize_text :: string where
  "oversize_text = replicate 5000001 (CHR ''x'')"

text \<open>
  What a tool call comes to: an outcome reached without the loop of \<open>listPages\<close>, or
  that loop for a space id.
\<close>

definition toolCall_plan ::
  "platform \<Rightarrow> server \<Rightarrow> backend \<Rightarrow> fetch_req list \<Rightarrow> jsval
    \<Rightarrow> ((error + jsval) \<times> fetch_req list) + jsval" where
  "toolCall_plan pf s be tr body =
     handleToolCall_with (\<lambda>pf c be spaceId tr items page. Inr spaceId) Inl pf s be tr body"

text \<open>Calls of \<open>list_spaces\<close> and of \<open>list_pages\<close>.\<close>

definition list_spaces_call :: jsval where
  "list_spaces_call = JObj (fmap_of_list [(''tool'', JStr ''list_spaces'')])"

definition list_pages_call :: jsval where
  "list_pages_call = JObj (fmap_of_list
     [(''tool'', JStr ''list_pages''),
      (''params'', JObj (fmap_of_list [(''spaceId'', JStr ''space-1'')]))])"

section \<open>Lemmas\<close>

text \<open>The loop, \<open>listPages\<close> and \<open>handleToolCall\<close> run to their end, written out.\<close>

lemma listPages_loop_unfold:
  "listPages_loop pf c be spaceId tr items page =
     (case post pf c be tr ''/api/pages/sidebar-pages''
             (JObj (fmap_of_list [(''spaceId'', spaceId), (''page'', JNum (real page))])) of
        (Inl e, tr') \<Rightarrow> Some (Inl e, tr')
      | (Inr result, tr') \<Rightarrow>
         (case iterate (js_or (opt_prop result ''items'') (JArr [])) of
            Inl e \<Rightarrow> Some (Inl e, tr')
          | Inr pageItems \<Rightarrow>
             (let items' = items @ pageItems;
                  lastMeta = js_or (opt_prop result ''meta'') JNull;
                  hasNext = truthy (opt_prop lastMeta ''hasNextPage'')
              in if hasNext then listPages_loop pf c be spaceId tr' items' (page + 1)
                 else Some (Inr (JObj (fmap_of_list
                                [(''items'', JArr items'), (''meta'', lastMeta)])), tr'))))"
  by (subst listPages_loop.simps)
     (simp add: loop_pass_def Let_def split: prod.splits sum.splits)

lemma listPages_unfold:
  "listPages pf c be tr spaceId =
     (if \<not> truthy spaceId then Some (Inl (Error ValidationError msg_spaceId), tr)
      else listPages_loop pf c be spaceId tr [] 1)"
  by (simp add: listPages_def listPages_with_def)

lemma handleToolCall_unfold:
  "handleToolCall pf s be tr body =
    (let b = js_or body (JObj fmempty);
         tool = js_prop b ''tool'';
         params = (if js_prop b ''params'' = JUndefined then JObj fmempty else js_prop b ''params'')
     in if \<not> truthy tool then Some (Inl (Error ValidationError msg_tool_required), tr)
        else
         (let isWriteTool = (tool = JStr ''create_page'' \<or> tool = JStr ''update_page'')
          in if readOnly (appConfig s) \<and> isWriteTool then
               Some (Inl (Error PolicyError msg_read_only), tr)
             else if tool = JStr ''list_spaces'' then Some (listSpaces pf (client s) be tr)
             else if tool = JStr ''list_pages'' then
               (case member params ''spaceId'' of
                  Inl e \<Rightarrow> Some (Inl e, tr)
                | Inr spaceId \<Rightarrow> listPages pf (client s) be tr spaceId)
             else if tool = JStr ''get_page'' then
               (case member params ''pageId'' of
                  Inl e \<Rightarrow> Some (Inl e, tr)
                | Inr pageId \<Rightarrow> Some (getPage pf (client s) be tr pageId))
             else if tool = JStr ''search_pages'' then
               (case member params ''query'' of
                  Inl e \<Rightarrow> Some (Inl e, tr)
                | Inr query \<Rightarrow> Some (searchPages pf (client s) be tr query))
             else if tool = JStr ''create_page'' then
               (case member params ''title'' of
                  Inl e \<Rightarrow> Some (Inl e, tr)
                | Inr title \<Rightarrow>
                   Some (createPage pf (client s) be tr
                     (JObj (fmap_of_list
                        [(''title'', title),
                         (''content'', js_prop params ''content''),
                         (''spaceId'', js_prop params ''spaceId''),
                         (''folderId'', js_prop params ''folderId'')]))))
             else if tool = JStr ''update_page'' then
               (case member params ''pageId'' of
                  Inl e \<Rightarrow> Some (Inl e, tr)
                | Inr pageId \<Rightarrow>
                   Some (updatePage pf (client s) be tr pageId (js_prop params ''payload'')))
             else Some (Inl (Error ValidationError (msg_unknown_tool pf tool)), tr)))"
  unfolding handleToolCall_def handleToolCall_with_def listPages_unfold listPages_with_def
  by (rule refl)

lemma decimal_404: "decimal 404 = ''404''"
  by code_simp

lemma request_headers:
  "(case nonempty (apiToken c) of
      Some t \<Rightarrow> fmupd ''Authorization'' (''Bearer '' @ t) (fmupd ''Content-Type'' ''application/json'' fmempty)
    | None \<Rightarrow>
       (case nonempty (authCookie c) of
          Some k \<Rightarrow> fmupd ''Cookie'' (''authToken='' @ k) (fmupd ''Content-Type'' ''application/json'' fmempty)
        | None \<Rightarrow> fmupd ''Content-Type'' ''application/json'' fmempty)) = client_headers c"
  by (auto simp: client_headers_def split: option.splits intro!: fmap_ext)

lemma post_trace:
  assumes "url_resolve pf path (baseUrl c) = Inr url"
  shows "snd (post pf c be tr path body) = tr @ [post_req c url (js_or body (JObj fmempty))]"
  using assms
  by (simp add: post_def request_def fetch_def Let_def request_headers post_req_def
      split: sum.splits prod.splits)


lemma post_sidebar_page:
  assumes "url_resolve pf path (baseUrl c) = Inr url" and "truthy body"
    and "answers be (length tr) (sidebar_page its meta)"
  shows "post pf c be tr path body = (Inr (sidebar_page its meta), tr @ [post_req c url body])"
  using assms
  by (simp add: post_def request_def fetch_def Let_def request_headers post_req_def answers_def
      json_response_def ok_def sidebar_page_def typeof_object_def hasOwnProperty_def js_or_def)

lemma loop_step:
  assumes "url_resolve pf ''/api/pages/sidebar-pages'' (baseUrl c) = Inr url"
    and "answers be (length tr) (sidebar_page its meta)"
  shows "listPages_loop pf c be spaceId tr items page =
     (if has_next meta
      then listPages_loop pf c be spaceId (tr @ [sidebar_req c url spaceId page]) (items @ its) (page + 1)
      else Some (Inr (sidebar_page (items @ its) (js_or meta JNull)),
                 tr @ [sidebar_req c url spaceId page]))"
  apply (subst listPages_loop_unfold)
  apply (simp add: post_sidebar_page [OF assms(1) _ assms(2)] sidebar_req_def has_next_def)
  apply (simp add: sidebar_page_def opt_prop_def js_prop_def js_or_def iterate_def)
  done

lemma loop_terminates:
  assumes u: "url_resolve pf ''/api/pages/sidebar-pages'' (baseUrl c) = Inr url"
    and a: "\<And>i. i \<le> n \<Longrightarrow> answers be (length tr + i) (sidebar_page (its (length tr + i)) (meta (length tr + i)))"
    and h: "\<And>i. i < n \<Longrightarrow> has_next (meta (length tr + i))"
    and l: "\<not> has_next (meta (length tr + n))"
  shows "listPages_loop pf c be spaceId tr items page =
     Some (Inr (sidebar_page (items @ concat (map its [length tr..<length tr + n + 1]))
                   (js_or (meta (length tr + n)) JNull)),
           tr @ map (\<lambda>i. sidebar_req c url spaceId (page + i)) [0..<n + 1])"
  using a h l
proof (induction n arbitrary: tr items page)
  case 0
  from "0.prems"(1) [of 0] have "answers be (length tr) (sidebar_page (its (length tr)) (meta (length tr)))"
    by simp
  from loop_step [OF u this] "0.prems"(3) show ?case by simp
next
  case (Suc n)
  let ?tr = "tr @ [sidebar_req c url spaceId page]"
  from Suc.prems(1) [of 0] have a0: "answers be (length tr) (sidebar_page (its (length tr)) (meta (length tr)))"
    by simp
  from Suc.prems(2) [of 0] have h0: "has_next (meta (length tr))" by simp
  have step: "listPages_loop pf c be spaceId tr items page =
        listPages_loop pf c be spaceId ?tr (items @ its (length tr)) (page + 1)"
    using loop_step [OF u a0] h0 by simp
  have ih: "listPages_loop pf c be spaceId ?tr (items @ its (length tr)) (page + 1) =
     Some (Inr (sidebar_page ((items @ its (length tr)) @ concat (map its [length ?tr..<length ?tr + n + 1]))
                   (js_or (meta (length ?tr + n)) JNull)),
           ?tr @ map (\<lambda>i. sidebar_req c url spaceId (page + 1 + i)) [0..<n + 1])"
  proof (rule Suc.IH)
    fix i assume "i \<le> n"
    then show "answers be (length ?tr + i) (sidebar_page (its (length ?tr + i)) (meta (length ?tr + i)))"
      using Suc.prems(1) [of "Suc i"] by simp
  next
    fix i assume "i < n"
    then show "has_next (meta (length ?tr + i))" using Suc.prems(2) [of "Suc i"] by simp
  next
    show "\<not> has_next (meta (length ?tr + n))" using Suc.prems(3) by simp
  qed
  have e1: "[length tr..<length tr + Suc n + 1] = length tr # [length ?tr..<length ?tr + n + 1]"
    by (simp add: upt_conv_Cons)
  have e2: "map (\<lambda>i. sidebar_req c url spaceId (page + i)) [0..<Suc n + 1]
            = sidebar_req c url spaceId page # map (\<lambda>i. sidebar_req c url spaceId (page + 1 + i)) [0..<n + 1]"
    using map_upt_Suc [of "\<lambda>i. sidebar_req c url spaceId (page + i)" "Suc n"] by simp
  show ?case unfolding step ih e1 e2 by simp
qed

lemma loop_returns_has_last:
  assumes u: "url_resolve pf ''/api/pages/sidebar-pages'' (baseUrl c) = Inr url"
    and a: "\<And>k. answers be k (sidebar_page (its k) (meta k))"
    and r: "listPages_loop pf c be spaceId tr items page = Some y"
  shows "\<exists>k\<ge>length tr. \<not> has_next (meta k)"
proof -
  let ?P = "\<lambda>pf' c' be' (spaceId :: jsval) (tr :: fetch_req list) (items :: jsval list) (page :: nat)
              (y :: (error + jsval) \<times> fetch_req list).
              pf' = pf \<longrightarrow> c' = c \<longrightarrow> be' = be \<longrightarrow> (\<exists>k\<ge>length tr. \<not> has_next (meta k))"
  have "?P pf c be spaceId tr items page y"
  proof (rule listPages_loop.raw_induct [where P = ?P, OF _ r], goal_cases)
    case prems: (1 lp pf' c' be' spaceId tr items page y)
    show ?case
    proof (intro impI)
      assume eq: "pf' = pf" "c' = c" "be' = be"
      show "\<exists>k\<ge>length tr. \<not> has_next (meta k)"
      proof (cases "has_next (meta (length tr))")
        case False
        then show ?thesis by blast
      next
        case True
        have p: "post pf c be tr ''/api/pages/sidebar-pages''
                   (JObj (fmap_of_list [(''spaceId'', spaceId), (''page'', JNum (real page))]))
                 = (Inr (sidebar_page (its (length tr)) (meta (length tr))),
                    tr @ [sidebar_req c url spaceId page])"
          using post_sidebar_page [OF u _ a] by (simp add: sidebar_req_def)
        from prems(2) [unfolded loop_pass_def] True
        have "lp pf c be spaceId (tr @ [sidebar_req c url spaceId page]) (items @ its (length tr)) (page + 1) = Some y"
          unfolding eq p
          by (simp add: sidebar_page_def opt_prop_def js_prop_def js_or_def iterate_def has_next_def)
        from prems(1) [OF this] obtain k where "k \<ge> length (tr @ [sidebar_req c url spaceId page])" "\<not> has_next (meta k)"
          by auto
        then show ?thesis by (intro exI [of _ k]) simp
      qed
    qed
  qed
  then show ?thesis by blast
qed

lemma has_next_meta: "has_next (next_meta b) = b"
  by (simp add: has_next_def next_meta_def js_or_def opt_prop_def js_prop_def)

lemma truthy_next_meta: "truthy (next_meta b)"
  by (simp add: next_meta_def)

lemma test_url:
  "url_resolve test_platform path (baseUrl test_client) = Inr (''http://docmost.test'' @ path)"
  by (simp add: test_platform_def test_client_def DocmostClient_def)

lemma answers_seq: "answers (seq_backend f) k (f k)"
  by (simp add: answers_def seq_backend_def)

lemma answers_paged:
  "k < length pages \<Longrightarrow> answers (paged_backend pages) k (sidebar_page (fst (pages ! k)) (snd (pages ! k)))"
  by (simp add: answers_def paged_backend_def)

lemma js_prop_js_or: "js_prop (js_or body (JObj fmempty)) k = js_prop body k"
  by (cases body) (simp_all add: js_or_def js_prop_def)

lemma digit_char_in: "d < 10 \<Longrightarrow> digit_char d \<in> set ''0123456789''"
  unfolding digit_char_def by (rule nth_mem) simp

lemma decimal_digits: "set (decimal n) \<subseteq> set ''0123456789''"
proof (induction n rule: decimal.induct)
  case (1 n)
  show ?case
  proof (cases "n < 10")
    case True
    then show ?thesis using digit_char_in [of n] by (subst decimal.simps) simp
  next
    case False
    have "digit_char (n mod 10) \<in> set ''0123456789''" by (rule digit_char_in) simp
    with False "1.IH" show ?thesis by (subst decimal.simps) simp
  qed
qed

lemma indexed_no_pageId: "fmlookup (indexed xs) ''pageId'' = None"
proof -
  have "''pageId'' \<noteq> decimal i" for i
  proof
    assume "''pageId'' = decimal i"
    then have "set ''pageId'' \<subseteq> set ''0123456789''" using decimal_digits [of i] by simp
    then show False by simp
  qed
  then have "''pageId'' \<notin> set (map decimal [0..<length xs])" by auto
  then have "''pageId'' \<notin> fst ` set (zip (map decimal [0..<length xs]) xs)"
    by (auto dest: set_zip_leftD)
  then have "map_of (zip (map decimal [0..<length xs]) xs) ''pageId'' = None"
    by (simp add: map_of_eq_None_iff)
  then show ?thesis by (simp only: indexed_def fmlookup_of_list)
qed

lemma spread_pageId:
  "fmlookup (spread (js_or payload (JObj fmempty))) ''pageId''
   = (if hasOwnProperty payload ''pageId'' then Some (js_prop payload ''pageId'') else None)"
  by (cases payload)
     (auto simp add: js_or_def spread_def hasOwnProperty_def js_prop_def indexed_no_pageId)

lemma sendJsonRpc_result:
  "res_payload (sendJsonRpc pf i (fmupd ''result'' r fmempty)) = Some (rpc_result_body i r)"
  by (auto simp add: sendJsonRpc_def rpc_result_body_def Let_def intro!: fmap_ext)

lemma sendJsonRpcError_payload:
  "res_payload (sendJsonRpcError pf i code msg) = Some (rpc_error_body i code msg)"
  by (auto simp add: sendJsonRpcError_def sendJsonRpc_def rpc_error_body_def Let_def intro!: fmap_ext)

lemma sendJsonRpc_status: "res_status (sendJsonRpc pf i p) = 200"
  by (simp add: sendJsonRpc_def Let_def)

lemma sendJsonRpcError_status: "res_status (sendJsonRpcError pf i code msg) = 200"
  by (simp add: sendJsonRpcError_def sendJsonRpc_status)

lemma sendJson_status: "res_status (sendJson pf st p) = st"
  by (simp add: sendJson_def)

lemma handleJsonRpc_id:
  assumes "handleJsonRpc pf s be tr body = Some (Inr (i, r), tr')"
  shows "i = js_prop body ''id''"
  using assms
  by (auto simp add: handleJsonRpc_def js_prop_js_or Let_def
      split: if_splits option.splits sum.splits prod.splits)

lemma handler_rpc:
  assumes "req_method req = ''POST''" and "is_rpc_url (req_url req)"
  shows "handler pf s be tr req = jsonRpcRoute pf s be tr req"
  using assms by (auto simp add: handler_def is_rpc_url_def Let_def)

lemma handler_tool_call:
  assumes "req_method req = ''POST''" and "req_url req = ''/mcp/tool-call''"
  shows "handler pf s be tr req = toolCallRoute pf s be tr req"
  using assms by (simp add: handler_def Let_def)

lemma test_parse:
  "json_parse test_platform rpc_unknown_text = Some rpc_unknown"
  "json_parse test_platform rpc_list_tools_text = Some rpc_list_tools"
  "json_parse test_platform call_unknown_text = Some call_unknown"
  by (simp_all add: test_platform_def rpc_unknown_text_def rpc_list_tools_text_def call_unknown_text_def)

lemma parse_post_request:
  "json_parse pf text = Some v \<Longrightarrow> text \<noteq> [] \<Longrightarrow> length text \<le> 5000000
   \<Longrightarrow> parseJsonBody pf (post_request url text) = (Inr v, False)"
  by (simp add: parseJsonBody_def post_request_def)

lemma handleJsonRpc_list_tools:
  "handleJsonRpc test_platform s be tr rpc_list_tools
   = Some (Inr (JNum 1, JObj (fmap_of_list [(''tools'', JArr (map tool_json (tools s)))])), tr)"
  by (simp add: handleJsonRpc_def rpc_list_tools_def js_or_def js_prop_def)

lemma rpc_list_tools_id: "js_prop rpc_list_tools ''id'' = JNum 1"
  by (simp add: rpc_list_tools_def js_prop_def)

lemma handleJsonRpc_unknown:
  "handleJsonRpc test_platform s be tr rpc_unknown
   = Some (Inl (Error ProtocolError (''M'' @ [e_acute] @ ''todo JSON-RPC desconocido: nope'')), tr)"
  by (simp add: handleJsonRpc_def rpc_unknown_def js_or_def js_prop_def msg_unknown_method_def template_def)

lemma test_bodies:
  "parseJsonBody test_platform (post_request url rpc_unknown_text) = (Inr rpc_unknown, False)"
  "parseJsonBody test_platform (post_request url rpc_list_tools_text) = (Inr rpc_list_tools, False)"
  "parseJsonBody test_platform (post_request url call_unknown_text) = (Inr call_unknown, False)"
  by (rule parse_post_request [OF test_parse(1)], simp_all add: rpc_unknown_text_def)
     (rule parse_post_request [OF test_parse(2)], simp_all add: rpc_list_tools_text_def,
      rule parse_post_request [OF test_parse(3)], simp_all add: call_unknown_text_def)

lemma sent_with_refl: "sent_with hs tr tr"
  by (simp add: sent_with_def)

lemma sent_with_trans: "sent_with hs tr tr1 \<Longrightarrow> sent_with hs tr1 tr2 \<Longrightarrow> sent_with hs tr tr2"
  by (auto simp add: sent_with_def)

lemma post_sent: "sent_with (client_headers c) tr (snd (post pf c be tr path body))"
proof (cases "url_resolve pf path (baseUrl c)")
  case (Inl e)
  then show ?thesis by (simp add: post_def request_def sent_with_refl)
next
  case (Inr url)
  then show ?thesis by (simp add: post_trace sent_with_def post_req_def)
qed

lemma post_sent': "post pf c be tr path body = (r, tr') \<Longrightarrow> sent_with (client_headers c) tr tr'"
  using post_sent [of c tr pf be path body] by simp

lemma listSpaces_sent: "sent_with (client_headers c) tr (snd (listSpaces pf c be tr))"
  by (simp add: listSpaces_def post_sent)

lemma getPage_sent: "sent_with (client_headers c) tr (snd (getPage pf c be tr pageId))"
  by (simp add: getPage_def post_sent sent_with_refl)

lemma searchPages_sent: "sent_with (client_headers c) tr (snd (searchPages pf c be tr q))"
  by (simp add: searchPages_def post_sent sent_with_refl)

lemma createPage_sent: "sent_with (client_headers c) tr (snd (createPage pf c be tr p))"
  by (simp add: createPage_def Let_def post_sent sent_with_refl)

lemma updatePage_sent: "sent_with (client_headers c) tr (snd (updatePage pf c be tr pageId p))"
  by (simp add: updatePage_def post_sent sent_with_refl)

lemma loop_sent:
  assumes "listPages_loop pf c be spaceId tr items page = Some y"
  shows "sent_with (client_headers c) tr (snd y)"
proof -
  let ?P = "\<lambda>(pf :: platform) c (be :: backend) (spaceId :: jsval) tr (items :: jsval list)
              (page :: nat) (y :: (error + jsval) \<times> fetch_req list).
              sent_with (client_headers c) tr (snd y)"
  show ?thesis
  proof (rule listPages_loop.raw_induct [where P = ?P, OF _ assms], goal_cases)
    case prems: (1 lp pf c be spaceId tr items page y)
    obtain r tr1 where p: "post pf c be tr ''/api/pages/sidebar-pages''
        (JObj (fmap_of_list [(''spaceId'', spaceId), (''page'', JNum (real page))])) = (r, tr1)"
      by (cases "post pf c be tr ''/api/pages/sidebar-pages''
        (JObj (fmap_of_list [(''spaceId'', spaceId), (''page'', JNum (real page))]))")
    have s1: "sent_with (client_headers c) tr tr1" using p by (rule post_sent')
    show ?case
    proof (cases r)
      case (Inl e)
      with prems(2) [unfolded loop_pass_def] p s1 show ?thesis by auto
    next
      case (Inr result)
      show ?thesis
      proof (cases "iterate (js_or (opt_prop result ''items'') (JArr []))")
        case (Inl e)
        with prems(2) [unfolded loop_pass_def] p s1 Inr show ?thesis by auto
      next
        case it: (Inr pageItems)
        show ?thesis
        proof (cases "truthy (opt_prop (js_or (opt_prop result ''meta'') JNull) ''hasNextPage'')")
          case True
          with prems(2) [unfolded loop_pass_def] p Inr it
          have "lp pf c be spaceId tr1 (items @ pageItems) (page + 1) = Some y"
            by (simp add: Let_def)
          from prems(1) [OF this] s1 show ?thesis by (rule sent_with_trans [rotated])
        next
          case False
          with prems(2) [unfolded loop_pass_def] p s1 Inr it show ?thesis by (auto simp add: Let_def)
        qed
      qed
    qed
  qed
qed

lemma listPages_sent:
  "listPages pf c be tr spaceId = Some y \<Longrightarrow> sent_with (client_headers c) tr (snd y)"
  by (auto simp add: listPages_unfold sent_with_refl dest: loop_sent split: if_splits)

lemma handleToolCall_sent:
  assumes "handleToolCall pf s be tr body = Some y"
  shows "sent_with (client_headers (client s)) tr (snd y)"
proof -
  have a: "Some (f :: (error + jsval) \<times> fetch_req list) = Some y \<Longrightarrow> sent_with hs tr (snd f)
           \<Longrightarrow> sent_with hs tr (snd y)" for f hs
    by simp
  from assms show ?thesis
    unfolding handleToolCall_unfold Let_def
    by (auto split: if_splits sum.splits
        simp add: sent_with_refl listSpaces_sent getPage_sent searchPages_sent createPage_sent
          updatePage_sent
        dest: listPages_sent)
qed


lemma login_ok:
  assumes "login pf c be tr em pw = (Inr (tok, c'), tr')"
  shows "tok \<noteq> [] \<and> c' = c\<lparr>authCookie := Some tok\<rparr>
         \<and> (\<exists>rq. tr' = tr @ [rq] \<and> rq_headers rq = json_headers None)"
  using assms unfolding login_def fetch_def Let_def json_headers_def
  by (auto split: if_splits sum.splits option.splits list.splits prod.splits)

lemma nonempty_Some: "nonempty x = Some t \<Longrightarrow> x = Some t \<and> t \<noteq> []"
  by (auto simp add: nonempty_def split: option.splits if_splits)

lemma loadConfig_token:
  assumes "loadConfig pf e = Inr cfg"
  shows "(case nonempty (DOCMOST_API_TOKEN e) of
            Some t \<Rightarrow> cfg_apiToken cfg = Some t
          | None \<Rightarrow> cfg_apiToken cfg = None \<and> cfg_credentials cfg \<noteq> None)"
  using assms unfolding loadConfig_def Let_def
  by (auto split: option.splits if_splits dest: nonempty_Some)

lemma client_headers_token:
  "t \<noteq> [] \<Longrightarrow> client_headers (DocmostClient base (Some t))
     = json_headers (Some (''Authorization'', ''Bearer '' @ t))"
  by (simp add: client_headers_def DocmostClient_def nonempty_def json_headers_def)

lemma client_headers_cookie:
  "k \<noteq> [] \<Longrightarrow> client_headers ((DocmostClient base None)\<lparr>authCookie := Some k\<rparr>)
     = json_headers (Some (''Cookie'', ''authToken='' @ k))"
  by (simp add: client_headers_def DocmostClient_def nonempty_def json_headers_def)

lemma bootstrap_client:
  assumes "bootstrap pf e be0 tr0 = (Inr s, tr1)"
  shows "case nonempty (DOCMOST_API_TOKEN e) of
           Some t \<Rightarrow>
             tr1 = tr0 \<and> authCookie (client s) = None
             \<and> client_headers (client s) = json_headers (Some (''Authorization'', ''Bearer '' @ t))
         | None \<Rightarrow>
             (\<exists>k login_rq. k \<noteq> [] \<and> authCookie (client s) = Some k
                \<and> tr1 = tr0 @ [login_rq] \<and> rq_headers login_rq = json_headers None
                \<and> client_headers (client s) = json_headers (Some (''Cookie'', ''authToken='' @ k)))"
proof (cases "loadConfig pf e")
  case (Inl err)
  with assms show ?thesis by (simp add: bootstrap_def)
next
  case (Inr cfg)
  note cfg = loadConfig_token [OF Inr]
  show ?thesis
  proof (cases "nonempty (DOCMOST_API_TOKEN e)")
    case (Some t)
    with cfg have t: "cfg_apiToken cfg = Some t" by simp
    from Some have ne: "t \<noteq> []" by (auto dest: nonempty_Some)
    from assms Inr t ne have "s = \<lparr>appConfig = cfg, client = DocmostClient (cfg_baseUrl cfg) (Some t),
        tools = (if readOnly cfg
                 then filter (\<lambda>t. name t \<noteq> ''create_page'' \<and> name t \<noteq> ''update_page'') baseTools
                 else baseTools)\<rparr> \<and> tr1 = tr0"
      by (auto simp add: bootstrap_def Let_def nonempty_def)
    with Some ne show ?thesis
      by (simp add: client_headers_token) (simp add: DocmostClient_def)
  next
    case None
    with cfg have t: "cfg_apiToken cfg = None" and cr: "cfg_credentials cfg \<noteq> None" by simp_all
    let ?c = "DocmostClient (cfg_baseUrl cfg) None"
    obtain r tr' where l: "login pf ?c be0 tr0 (email (the (cfg_credentials cfg)))
                             (password (the (cfg_credentials cfg))) = (r, tr')"
      by (cases "login pf ?c be0 tr0 (email (the (cfg_credentials cfg)))
                             (password (the (cfg_credentials cfg)))")
    from assms Inr t cr l obtain tok c' where r: "r = Inr (tok, c')" and s: "client s = c'"
      and tr: "tr1 = tr'"
      by (auto simp add: bootstrap_def Let_def nonempty_def split: sum.splits)
    from login_ok [OF l [unfolded r]] obtain rq where
      "tok \<noteq> []" "c' = ?c\<lparr>authCookie := Some tok\<rparr>" "tr' = tr0 @ [rq]"
      "rq_headers rq = json_headers None"
      by blast
    with None s tr show ?thesis
      by (auto simp add: client_headers_cookie)
  qed
qed

lemma bootstrap_login_env:
  "bootstrap test_platform login_env cookie_backend [] = (Inr cookie_server, [login_req])"
  by (simp add: bootstrap_def loadConfig_def login_env_def nonempty_def strip_slash_def
      parseBoolean_def Let_def DocmostClient_def login_def test_platform_def fetch_def
      cookie_backend_def ok_def cookie_server_def login_req_def json_headers_def)


text \<open>The servers of the examples are states that \<open>bootstrap\<close> produces.\<close>

lemma bootstrap_token_env:
  "bootstrap test_platform (token_env ro) be [] = (Inr (test_server ro), [])"
  by (simp add: bootstrap_def loadConfig_def token_env_def nonempty_def strip_slash_def
      parseBoolean_def toLowerCase_def lower_char_def Let_def test_server_def test_config_def
      test_client_def DEFAULT_PORT_def)

lemma str_split_nonempty: "str_split sep s \<noteq> []"
  by (induction s) (auto split: list.splits)

lemma parse_destroyed: "snd (parseJsonBody pf req) = oversize req"
  by (simp add: parseJsonBody_def oversize_def split: sum.splits option.splits)

lemma parse_oversize:
  "oversize req \<Longrightarrow> parseJsonBody pf req = (Inl (Error ProtocolError msg_too_large), True)"
  by (cases "req_data req") (simp_all add: parseJsonBody_def oversize_def)

lemma oversize_post: "oversize (post_request url oversize_text)"
  by (simp add: oversize_def post_request_def oversize_text_def)

lemma handleToolCall_with_plan:
  "handleToolCall_with loop out pf s be tr body =
     (case toolCall_plan pf s be tr body of
        Inl x \<Rightarrow> out x
      | Inr spaceId \<Rightarrow> loop pf (client s) be spaceId tr [] 1)"
  unfolding toolCall_plan_def handleToolCall_with_def listPages_with_def Let_def
  by (simp split del: if_split del: One_nat_def cong: if_cong sum.case_cong
      add: if_distrib [where f = "case_sum out (\<lambda>spaceId. loop pf (client s) be spaceId tr [] 1)"]
        sum.case_distrib [where h = "case_sum out (\<lambda>spaceId. loop pf (client s) be spaceId tr [] 1)"])

lemma plan_sent:
  assumes "toolCall_plan pf s be tr body = Inl x"
  shows "sent_with (client_headers (client s)) tr (snd x)"
proof -
  let ?good = "case_sum (\<lambda>x. sent_with (client_headers (client s)) tr (snd x)) (\<lambda>spaceId :: jsval. True)"
  have "?good (toolCall_plan pf s be tr body)"
    unfolding toolCall_plan_def handleToolCall_with_def listPages_with_def Let_def
    by (simp split del: if_split cong: if_cong sum.case_cong
        add: if_distrib [where f = ?good] sum.case_distrib [where h = ?good]
          sent_with_refl listSpaces_sent getPage_sent searchPages_sent createPage_sent
          updatePage_sent)
  with assms show ?thesis by simp
qed

lemma loop_pass_sent:
  "case loop_pass pf c be spaceId tr items page of
     Inl (r, tr') \<Rightarrow> sent_with (client_headers c) tr tr'
   | Inr (tr', items', page') \<Rightarrow> sent_with (client_headers c) tr tr'"
proof -
  obtain r tr1 where p: "post pf c be tr ''/api/pages/sidebar-pages''
      (JObj (fmap_of_list [(''spaceId'', spaceId), (''page'', JNum (real page))])) = (r, tr1)"
    by (cases "post pf c be tr ''/api/pages/sidebar-pages''
      (JObj (fmap_of_list [(''spaceId'', spaceId), (''page'', JNum (real page))]))")
  have "sent_with (client_headers c) tr tr1" using p by (rule post_sent')
  then show ?thesis
    unfolding loop_pass_def p by (simp add: Let_def split: sum.splits)
qed

lemma passes_sent:
  "sent_with (client_headers c) tr (snd (listPages_passes n pf c be spaceId tr items page))"
proof (induction n arbitrary: tr items page)
  case 0
  show ?case by (simp add: sent_with_refl)
next
  case (Suc n)
  show ?case
  proof (cases "loop_pass pf c be spaceId tr items page")
    case (Inl out)
    with loop_pass_sent [where pf = pf and c = c and be = be and spaceId = spaceId and tr = tr
        and items = items and page = page] show ?thesis
      by (cases out) simp
  next
    case (Inr st)
    obtain tr1 items1 page1 where st: "st = (tr1, items1, page1)" by (cases st)
    from loop_pass_sent [where pf = pf and c = c and be = be and spaceId = spaceId and tr = tr
        and items = items and page = page] Inr st
    have "sent_with (client_headers c) tr tr1" by simp
    from this Suc.IH [of tr1 items1 page1] have
      "sent_with (client_headers c) tr (snd (listPages_passes n pf c be spaceId tr1 items1 page1))"
      by (rule sent_with_trans)
    with Inr st show ?thesis by simp
  qed
qed

lemma ret_sent: "sent_with hs tr (snd out) \<Longrightarrow> sent_with hs tr (snd (ret out))"
  by (simp add: ret_def)

lemma passes_returns:
  "listPages_passes n pf c be spaceId tr items page = (Some r, tr')
   \<Longrightarrow> listPages_loop pf c be spaceId tr items page = Some (r, tr')"
proof (induction n arbitrary: tr items page)
  case 0
  then show ?case by simp
next
  case (Suc n)
  show ?case
  proof (cases "loop_pass pf c be spaceId tr items page")
    case (Inl out)
    with Suc.prems show ?thesis
      by (subst listPages_loop.simps) (auto split: prod.splits)
  next
    case (Inr st)
    obtain tr1 items1 page1 where st: "st = (tr1, items1, page1)" by (cases st)
    with Suc.prems Inr have "listPages_passes n pf c be spaceId tr1 items1 page1 = (Some r, tr')"
      by simp
    from Suc.IH [OF this] Inr st show ?thesis
      by (subst listPages_loop.simps) simp
  qed
qed

lemma loop_returns_passes:
  assumes "listPages_loop pf c be spaceId tr items page = Some y"
  shows "\<exists>n. listPages_passes n pf c be spaceId tr items page = (Some (fst y), snd y)"
proof -
  let ?P = "\<lambda>pf c be spaceId tr items page (y :: (error + jsval) \<times> fetch_req list).
              \<exists>n. listPages_passes n pf c be spaceId tr items page = (Some (fst y), snd y)"
  show ?thesis
  proof (rule listPages_loop.raw_induct [where P = ?P, OF _ assms], goal_cases)
    case prems: (1 lp pf c be spaceId tr items page y)
    show ?case
    proof (cases "loop_pass pf c be spaceId tr items page")
      case (Inl out)
      with prems(2) have "listPages_passes (Suc 0) pf c be spaceId tr items page = (Some (fst y), snd y)"
        by (auto split: prod.splits)
      then show ?thesis by blast
    next
      case (Inr st)
      obtain tr1 items1 page1 where st: "st = (tr1, items1, page1)" by (cases st)
      with prems(2) Inr have "lp pf c be spaceId tr1 items1 page1 = Some y" by simp
      from prems(1) [OF this] obtain n where
        "listPages_passes n pf c be spaceId tr1 items1 page1 = (Some (fst y), snd y)" by blast
      with Inr st have "listPages_passes (Suc n) pf c be spaceId tr items page = (Some (fst y), snd y)"
        by simp
      then show ?thesis by blast
    qed
  qed
qed

lemma loop_passes_iff:
  "listPages_loop pf c be spaceId tr items page = Some (r, tr')
   \<longleftrightarrow> (\<exists>n. listPages_passes n pf c be spaceId tr items page = (Some r, tr'))"
  using passes_returns loop_returns_passes [of pf c be spaceId tr items page "(r, tr')"]
  by auto


lemma handleToolCall_upto_sent:
  "sent_with (client_headers (client s)) tr (snd (handleToolCall_upto n pf s be tr body))"
proof (cases "toolCall_plan pf s be tr body")
  case (Inl x)
  with plan_sent [OF Inl] show ?thesis
    by (simp add: handleToolCall_upto_def handleToolCall_with_plan ret_def)
next
  case (Inr spaceId)
  then show ?thesis
    by (simp add: handleToolCall_upto_def handleToolCall_with_plan passes_sent)
qed

text \<open>The watched call reports what the call run to its end returns.\<close>

lemma handleToolCall_upto_iff:
  "handleToolCall pf s be tr body = Some (r, tr')
   \<longleftrightarrow> (\<exists>n. handleToolCall_upto n pf s be tr body = (Some r, tr'))"
proof (cases "toolCall_plan pf s be tr body")
  case (Inl x)
  then show ?thesis
    by (cases x) (simp add: handleToolCall_def handleToolCall_upto_def handleToolCall_with_plan ret_def)
next
  case (Inr spaceId)
  then show ?thesis
    by (simp add: handleToolCall_def handleToolCall_upto_def handleToolCall_with_plan
        loop_passes_iff)
qed


lemma loop_pass_next:
  assumes "url_resolve pf ''/api/pages/sidebar-pages'' (baseUrl c) = Inr url"
    and "answers be (length tr) (sidebar_page its meta)"
    and "has_next meta"
  shows "loop_pass pf c be spaceId tr items page
         = Inr (tr @ [sidebar_req c url spaceId page], items @ its, page + 1)"
proof -
  have p: "post pf c be tr ''/api/pages/sidebar-pages''
             (JObj (fmap_of_list [(''spaceId'', spaceId), (''page'', JNum (real page))]))
           = (Inr (sidebar_page its meta), tr @ [sidebar_req c url spaceId page])"
    using post_sidebar_page [OF assms(1) _ assms(2)] by (simp add: sidebar_req_def)
  show ?thesis
    unfolding loop_pass_def p using assms(3)
    by (simp add: sidebar_page_def opt_prop_def js_prop_def js_or_def iterate_def has_next_def)
qed

lemma listPages_upto_iff:
  "listPages pf c be tr spaceId = Some (r, tr')
   \<longleftrightarrow> (\<exists>n. listPages_upto n pf c be tr spaceId = (Some r, tr'))"
  by (auto simp add: listPages_def listPages_upto_def listPages_with_def ret_def loop_passes_iff)

section \<open>Properties\<close>

subsection \<open>HTML responses\<close>

text \<open>
  C1, as stated, fails: a response that signals HTML but has a failure status is reported
  as a \<open>BackendError\<close> carrying the status, because the status is tested first. Here
  the backend answers 404 with content type \<open>text/html\<close> and a doctype body.
\<close>

theorem request_html_status_counterexample:
  "signals_html (html_response 404) (JStr (resp_text (html_response 404)))
   \<and> fst (request test_platform test_client (\<lambda>tr rq. Inr (html_response 404)) [] ''/api/spaces''
            \<lparr>opt_method = Some ''POST'', opt_body = None, opt_headers = None\<rparr>)
     = Inl (Error BackendError
              (''Docmost devolvi'' @ [o_acute] @ '' 404: <!DOCTYPE html><html></html>''))"
  by (simp add: request_def test_platform_def test_client_def DocmostClient_def html_response_def
      fetch_def nonempty_def ok_def msg_status_def decimal_404 signals_html_def content_type_def)

text \<open>
  C1 (amended): for every backend response whose body is read without error (as JSON when
  the content type contains \<open>application/json\<close>, as text otherwise) and that signals an
  HTML document (the content type contains \<open>text/html\<close>, or the body read is a string
  that contains the doctype marker in any letter case), \<open>request\<close> fails with
  \<open>ConfigError\<close> when the status is a success status, and with \<open>BackendError\<close>
  carrying the status and the body otherwise; it never returns the body as data.
\<close>

theorem request_html_ConfigError:
  assumes "url_resolve pf path (baseUrl c) = Inr url"
    and "\<And>rq. be tr rq = Inr r"
    and "read_body r = Inr body"
    and "signals_html r body"
  shows "fst (request pf c be tr path opts) =
           (if ok r then Inl (Error ConfigError msg_html)
            else Inl (Error BackendError (msg_status pf (resp_status r) body)))"
  using assms
  by (auto simp add: request_def fetch_def Let_def read_body_def content_type_def signals_html_def
      split: option.splits sum.splits jsval.splits)

theorem request_html_ConfigError_witness:
  "fst (request test_platform test_client (\<lambda>tr rq. Inr (html_response 200)) [] ''/api/spaces''
         \<lparr>opt_method = Some ''POST'', opt_body = None, opt_headers = None\<rparr>)
   = Inl (Error ConfigError msg_html)"
  using request_html_ConfigError [of test_platform "''/api/spaces''" test_client
      "''http://docmost.test/api/spaces''" "\<lambda>tr rq. Inr (html_response 200)" "[]"
      "html_response 200" "JStr ''<!DOCTYPE html><html></html>''"]
  by (simp add: test_platform_def test_client_def DocmostClient_def read_body_def content_type_def
      signals_html_def html_response_def ok_def)

subsection \<open>Pagination\<close>

text \<open>
  C3, as stated, fails: the loop of \<open>listPages\<close> has no bound on its passes. Against a
  backend whose every page reports \<open>hasNextPage: true\<close> it never returns.
\<close>

theorem listPages_unbounded_counterexample:
  "has_next (next_meta True)
   \<and> listPages test_platform test_client (seq_backend always_next) [] (JStr ''space-1'') = None"
proof -
  have u: "url_resolve test_platform ''/api/pages/sidebar-pages'' (baseUrl test_client)
             = Inr ''http://docmost.test/api/pages/sidebar-pages''"
    by (simp add: test_platform_def test_client_def DocmostClient_def)
  have h: "has_next (next_meta True)"
    by (simp add: has_next_meta)
  have a: "\<And>k. answers (seq_backend always_next) k
             (sidebar_page ((\<lambda>k. [JStr ''page'']) k) ((\<lambda>k. next_meta True) k))"
    using answers_seq [of always_next] by (simp add: always_next_def)
  have "listPages_loop test_platform test_client (seq_backend always_next) (JStr ''space-1'') [] [] 1 = None"
  proof (cases "listPages_loop test_platform test_client (seq_backend always_next) (JStr ''space-1'') [] [] 1")
    case None
    then show ?thesis .
  next
    case (Some y)
    from loop_returns_has_last [OF u a Some] h show ?thesis by simp
  qed
  with h show ?thesis by (simp add: listPages_unfold)
qed

text \<open>
  C3 (amended): the loop of \<open>listPages\<close> has no iteration cap. Against a backend that
  answers every request with a well-formed page, \<open>listPages\<close> with a non-empty
  \<open>spaceId\<close> never returns exactly when every page reports a next page; it returns as
  soon as some page's metadata does not.
\<close>

theorem listPages_returns_iff:
  assumes "truthy spaceId"
    and u: "url_resolve pf ''/api/pages/sidebar-pages'' (baseUrl c) = Inr url"
  shows "(listPages pf c (seq_backend (\<lambda>k. sidebar_page (its k) (meta k))) [] spaceId = None)
          \<longleftrightarrow> (\<forall>k. has_next (meta k))"
proof
  let ?be = "seq_backend (\<lambda>k. sidebar_page (its k) (meta k))"
  have a: "\<And>k. answers ?be k (sidebar_page (its k) (meta k))"
    using answers_seq [of "\<lambda>k. sidebar_page (its k) (meta k)"] by simp
  {
    assume n: "listPages pf c ?be [] spaceId = None"
    show "\<forall>k. has_next (meta k)"
    proof (rule ccontr)
      assume "\<not> (\<forall>k. has_next (meta k))"
      then have ex: "\<exists>k. \<not> has_next (meta k)" by simp
      define n where "n = (LEAST k. \<not> has_next (meta k))"
      have l: "\<not> has_next (meta n)" unfolding n_def using ex by (rule LeastI_ex)
      have b: "has_next (meta i)" if "i < n" for i
        using that not_less_Least unfolding n_def by blast
      have "listPages_loop pf c ?be spaceId [] [] 1 \<noteq> None"
        using loop_terminates [where tr = "[]" and n = n and its = its and meta = meta, OF u] a b l
        by simp
      with n assms(1) show False by (simp add: listPages_unfold)
    qed
  next
    assume all: "\<forall>k. has_next (meta k)"
    show "listPages pf c ?be [] spaceId = None"
    proof (cases "listPages_loop pf c ?be spaceId [] [] 1")
      case None
      with assms(1) show ?thesis by (simp add: listPages_unfold)
    next
      case (Some y)
      from loop_returns_has_last [OF u a Some] all show ?thesis by simp
    qed
  }
qed

theorem listPages_returns_iff_witness:
  "listPages test_platform test_client
     (seq_backend (\<lambda>k. sidebar_page [JStr ''page''] (next_meta (k < 2)))) [] (JStr ''space-1'') \<noteq> None"
  using listPages_returns_iff [of "JStr ''space-1''" test_platform test_client
      "''http://docmost.test/api/pages/sidebar-pages''" "\<lambda>k. [JStr ''page'']" "\<lambda>k. next_meta (k < 2)"]
  by (simp add: test_url has_next_meta) (metis lessI less_irrefl_nat)


text \<open>
  C4, as stated, fails on its own example: for the pages
  \<open>{items: [a, b], hasNextPage: true}\<close> and \<open>{items: [c], hasNextPage: false}\<close>, as
  written, \<open>listPages\<close> makes one request and returns the items \<open>[a, b]\<close> with the
  metadata \<open>null\<close>, because the flag is read in the field \<open>meta\<close> of a page and these
  pages have none.
\<close>

theorem listPages_flat_example_counterexample:
  "listPages test_platform test_client
     (body_backend [flat_page [JStr ''a'', JStr ''b''] True, flat_page [JStr ''c''] False])
     [] (JStr ''space-1'')
   = Some (Inr (sidebar_page [JStr ''a'', JStr ''b''] JNull),
           [sidebar_req test_client ''http://docmost.test/api/pages/sidebar-pages''
              (JStr ''space-1'') 1])"
  apply (simp add: listPages_unfold)
  apply (subst listPages_loop_unfold)
  apply (simp add: post_def request_def test_url fetch_def body_backend_def json_response_def
      ok_def flat_page_def typeof_object_def hasOwnProperty_def js_or_def request_headers
      opt_prop_def js_prop_def iterate_def sidebar_page_def sidebar_req_def post_req_def)
  done

text \<open>
  C4 (amended): for a backend that serves the pages \<open>ps\<close>, each reporting a next page
  in its metadata (\<open>meta.hasNextPage\<close>), and then a page \<open>q\<close> whose metadata reports
  none (and whatever pages \<open>rest\<close> after it), \<open>listPages\<close> with a non-empty
  \<open>spaceId\<close> requests the pages 1 to \<open>length ps + 1\<close> in order and no more, and
  returns the items of these pages concatenated in order together with the metadata of
  \<open>q\<close>. For the pages \<open>{items: [a, b], meta: {hasNextPage: true}}\<close> and
  \<open>{items: [c], meta: {hasNextPage: false}}\<close> the items are \<open>[a, b, c]\<close>.
\<close>

theorem listPages_accumulates:
  assumes s: "truthy spaceId"
    and u: "url_resolve pf ''/api/pages/sidebar-pages'' (baseUrl c) = Inr url"
    and h: "\<forall>p \<in> set ps. has_next (snd p)"
    and l: "\<not> has_next (snd q)"
  shows "listPages pf c (paged_backend (ps @ q # rest)) [] spaceId =
           Some (Inr (sidebar_page (concat (map fst (ps @ [q]))) (js_or (snd q) JNull)),
                 map (sidebar_req c url spaceId) [1..<length ps + 2])"
proof -
  let ?pages = "ps @ q # rest"
  let ?its = "\<lambda>k. fst (?pages ! k)" and ?meta = "\<lambda>k. snd (?pages ! k)"
  have a: "answers (paged_backend ?pages) (length ([] :: fetch_req list) + i)
             (sidebar_page (?its (length ([] :: fetch_req list) + i)) (?meta (length ([] :: fetch_req list) + i)))"
    if "i \<le> length ps" for i
    using that answers_paged [of i ?pages] by simp
  have b: "has_next (?meta (length ([] :: fetch_req list) + i))" if "i < length ps" for i
    using that h by (simp add: nth_append)
  have e: "\<not> has_next (?meta (length ([] :: fetch_req list) + length ps))"
    using l by (simp add: nth_append)
  have r: "listPages_loop pf c (paged_backend ?pages) spaceId [] [] 1 =
     Some (Inr (sidebar_page ([] @ concat (map ?its [length ([] :: fetch_req list)..<length ([] :: fetch_req list) + length ps + 1]))
                   (js_or (?meta (length ([] :: fetch_req list) + length ps)) JNull)),
           [] @ map (\<lambda>i. sidebar_req c url spaceId (1 + i)) [0..<length ps + 1])"
    by (rule loop_terminates [OF u a b e])
  have m: "map ?its [0..<length ps + 1] = map fst (ps @ [q])"
    by (rule nth_equalityI) (auto simp: nth_append)
  have t: "map (\<lambda>i. sidebar_req c url spaceId (1 + i)) [0..<length ps + 1]
           = map (sidebar_req c url spaceId) [1..<length ps + 2]"
  proof -
    have "[1..<length ps + 2] = map Suc [0..<length ps + 1]"
      unfolding map_Suc_upt by simp
    then show ?thesis by (simp only: map_map comp_def) simp
  qed
  from r s show ?thesis
    using m t by (simp add: listPages_unfold nth_append)
qed


theorem listPages_accumulates_witness:
  "listPages test_platform test_client
     (paged_backend [([JStr ''a'', JStr ''b''], next_meta True), ([JStr ''c''], next_meta False)])
     [] (JStr ''space-1'')
   = Some (Inr (sidebar_page [JStr ''a'', JStr ''b'', JStr ''c''] (next_meta False)),
           [sidebar_req test_client ''http://docmost.test/api/pages/sidebar-pages'' (JStr ''space-1'') 1,
            sidebar_req test_client ''http://docmost.test/api/pages/sidebar-pages'' (JStr ''space-1'') 2])"
  using listPages_accumulates [of "JStr ''space-1''" test_platform test_client
      "''http://docmost.test/api/pages/sidebar-pages''"
      "[([JStr ''a'', JStr ''b''], next_meta True)]" "([JStr ''c''], next_meta False)" "[]"]
  by (simp add: test_url has_next_meta truthy_next_meta js_or_def numeral_2_eq_2 numeral_3_eq_3)

subsection \<open>Dispatch\<close>

text \<open>
  C5: when read-only mode is active, dispatching \<open>create_page\<close> or \<open>update_page\<close>
  fails with \<open>PolicyError\<close> whatever the parameters are, valid ones included; the
  failure comes before any parameter is read and before any backend call (the trace of
  requests is unchanged).
\<close>

theorem handleToolCall_read_only:
  assumes "readOnly (appConfig s)"
    and "js_prop body ''tool'' = JStr ''create_page'' \<or> js_prop body ''tool'' = JStr ''update_page''"
  shows "handleToolCall pf s be tr body = Some (Inl (Error PolicyError msg_read_only), tr)"
  using assms by (auto simp add: handleToolCall_unfold js_prop_js_or Let_def)

theorem handleToolCall_read_only_witness:
  "handleToolCall test_platform (test_server True) (paged_backend []) [] create_call
   = Some (Inl (Error PolicyError msg_read_only), [])"
  using handleToolCall_read_only [of "test_server True" create_call test_platform "paged_backend []" "[]"]
  by (simp add: test_server_def test_config_def create_call_def js_prop_def)

text \<open>
  C6, as stated, fails: in read-only mode \<open>create_page\<close> is not in the advertised
  registry, yet dispatching it fails with \<open>PolicyError\<close>, not with a
  \<open>ValidationError\<close> that names an unknown tool.
\<close>

theorem handleToolCall_excluded_tool_counterexample:
  "''create_page'' \<notin> set (map name (tools (test_server True)))
   \<and> handleToolCall test_platform (test_server True) (paged_backend []) []
        (JObj (fmap_of_list [(''tool'', JStr ''create_page'')]))
     = Some (Inl (Error PolicyError msg_read_only), [])"
  by (simp add: test_server_def test_config_def baseTools_def handleToolCall_unfold js_prop_def js_or_def)

text \<open>
  C6 (amended): for every non-empty tool name that is not one of the six names of the
  base registry, dispatch fails with the \<open>ValidationError\<close> that names the unknown
  tool, in either mode and without any backend call; the mutating names that read-only
  mode excludes fail with \<open>PolicyError\<close> instead, and an absent or empty tool name
  fails with the \<open>ValidationError\<close> that the field \<open>tool\<close> is required.
\<close>

theorem handleToolCall_unknown_tool:
  "(js_prop body ''tool'' = JStr n \<and> n \<noteq> [] \<and> n \<notin> set (map name baseTools)
      \<longrightarrow> handleToolCall pf s be tr body
            = Some (Inl (Error ValidationError (''Herramienta desconocida: '' @ n)), tr))
   \<and> (readOnly (appConfig s) \<and> js_prop body ''tool'' = JStr n
        \<and> (n = ''create_page'' \<or> n = ''update_page'')
      \<longrightarrow> handleToolCall pf s be tr body = Some (Inl (Error PolicyError msg_read_only), tr))
   \<and> (\<not> truthy (js_prop body ''tool'')
      \<longrightarrow> handleToolCall pf s be tr body = Some (Inl (Error ValidationError msg_tool_required), tr))"
  by (auto simp add: handleToolCall_unfold js_prop_js_or Let_def baseTools_def msg_unknown_tool_def
      template_def)

theorem handleToolCall_unknown_tool_witness:
  "handleToolCall test_platform (test_server False) (paged_backend []) []
      (JObj (fmap_of_list [(''tool'', JStr ''delete_page'')]))
     = Some (Inl (Error ValidationError ''Herramienta desconocida: delete_page''), [])
   \<and> handleToolCall test_platform (test_server True) (paged_backend []) []
      (JObj (fmap_of_list [(''tool'', JStr ''update_page'')]))
     = Some (Inl (Error PolicyError msg_read_only), [])
   \<and> handleToolCall test_platform (test_server False) (paged_backend []) []
      (JObj (fmap_of_list [(''tool'', JStr [])]))
     = Some (Inl (Error ValidationError msg_tool_required), [])"
  using handleToolCall_unknown_tool [of "JObj (fmap_of_list [(''tool'', JStr ''delete_page'')])"
          "''delete_page''" test_platform "test_server False" "paged_backend []" "[]"]
        handleToolCall_unknown_tool [of "JObj (fmap_of_list [(''tool'', JStr ''update_page'')])"
          "''update_page''" test_platform "test_server True" "paged_backend []" "[]"]
        handleToolCall_unknown_tool [of "JObj (fmap_of_list [(''tool'', JStr [])])"
          "[]" test_platform "test_server False" "paged_backend []" "[]"]
  by (simp add: js_prop_def baseTools_def test_server_def test_config_def)

subsection \<open>Creating and updating pages\<close>

text \<open>
  C8: \<open>createPage\<close> fails with \<open>ValidationError\<close>, sending nothing, if any of
  \<open>title\<close>, \<open>content\<close> or \<open>spaceId\<close> is absent (or otherwise falsy: \<open>null\<close>
  or empty); otherwise it sends one request whose body has the three fields and a field
  \<open>parentPageId\<close> that is \<open>null\<close> when \<open>folderId\<close> is omitted (or falsy) and is
  the given \<open>folderId\<close>, such as \<open>"f1"\<close>, when one is supplied.
\<close>

theorem createPage_parentPageId:
  "(\<not> truthy (js_prop payload ''title'') \<or> \<not> truthy (js_prop payload ''content'')
      \<or> \<not> truthy (js_prop payload ''spaceId'')
     \<longrightarrow> createPage pf c be tr payload = (Inl (Error ValidationError msg_create), tr))
   \<and> (truthy (js_prop payload ''title'') \<and> truthy (js_prop payload ''content'')
      \<and> truthy (js_prop payload ''spaceId'')
      \<and> url_resolve pf ''/api/pages/create'' (baseUrl c) = Inr url
     \<longrightarrow> snd (createPage pf c be tr payload) =
          tr @ [post_req c url (JObj (fmap_of_list
                  [(''title'', js_prop payload ''title''),
                   (''content'', js_prop payload ''content''),
                   (''spaceId'', js_prop payload ''spaceId''),
                   (''parentPageId'',
                      if truthy (js_prop payload ''folderId'')
                      then js_prop payload ''folderId'' else JNull)]))])"
proof (intro conjI impI)
  assume "\<not> truthy (js_prop payload ''title'') \<or> \<not> truthy (js_prop payload ''content'')
      \<or> \<not> truthy (js_prop payload ''spaceId'')"
  then show "createPage pf c be tr payload = (Inl (Error ValidationError msg_create), tr)"
    by (auto simp add: createPage_def js_prop_js_or Let_def)
next
  assume a: "truthy (js_prop payload ''title'') \<and> truthy (js_prop payload ''content'')
      \<and> truthy (js_prop payload ''spaceId'')
      \<and> url_resolve pf ''/api/pages/create'' (baseUrl c) = Inr url"
  then have u: "url_resolve pf ''/api/pages/create'' (baseUrl c) = Inr url" by simp
  from a show "snd (createPage pf c be tr payload) =
          tr @ [post_req c url (JObj (fmap_of_list
                  [(''title'', js_prop payload ''title''),
                   (''content'', js_prop payload ''content''),
                   (''spaceId'', js_prop payload ''spaceId''),
                   (''parentPageId'',
                      if truthy (js_prop payload ''folderId'')
                      then js_prop payload ''folderId'' else JNull)]))]"
    unfolding createPage_def js_prop_js_or Let_def
    by (simp add: post_trace [OF u] js_or_def)
qed

theorem createPage_parentPageId_witness:
  "snd (createPage test_platform test_client (paged_backend []) [] (page_payload None))
     = [post_req test_client ''http://docmost.test/api/pages/create''
          (JObj (fmap_of_list
             [(''title'', JStr ''Notes''), (''content'', JStr ''Hello''),
              (''spaceId'', JStr ''space-1''), (''parentPageId'', JNull)]))]
   \<and> snd (createPage test_platform test_client (paged_backend []) [] (page_payload (Some (JStr ''f1''))))
     = [post_req test_client ''http://docmost.test/api/pages/create''
          (JObj (fmap_of_list
             [(''title'', JStr ''Notes''), (''content'', JStr ''Hello''),
              (''spaceId'', JStr ''space-1''), (''parentPageId'', JStr ''f1'')]))]
   \<and> createPage test_platform test_client (paged_backend []) []
        (JObj (fmap_of_list [(''title'', JStr ''Notes''), (''spaceId'', JStr ''space-1'')]))
     = (Inl (Error ValidationError msg_create), [])"
  using createPage_parentPageId [of "page_payload None" test_platform test_client "paged_backend []" "[]"
          "''http://docmost.test/api/pages/create''"]
        createPage_parentPageId [of "page_payload (Some (JStr ''f1''))" test_platform test_client
          "paged_backend []" "[]" "''http://docmost.test/api/pages/create''"]
        createPage_parentPageId [of "JObj (fmap_of_list [(''title'', JStr ''Notes''), (''spaceId'', JStr ''space-1'')])"
          test_platform test_client "paged_backend []" "[]" "''http://docmost.test/api/pages/create''"]
  by (simp add: page_payload_def js_prop_def test_url)

text \<open>
  C9: in \<open>updatePage(pageId, payload)\<close> with a non-empty \<open>pageId\<close>, the body sent has
  a field \<open>pageId\<close>; it is the payload's own \<open>pageId\<close> when the payload has one
  (the payload is spread after the key), and the argument for every other payload.
\<close>

theorem updatePage_pageId:
  assumes "truthy pageId" and u: "url_resolve pf ''/api/pages/update'' (baseUrl c) = Inr url"
  shows "\<exists>m. snd (updatePage pf c be tr pageId payload) = tr @ [post_req c url (JObj m)]
           \<and> fmlookup m ''pageId'' =
               Some (if hasOwnProperty payload ''pageId'' then js_prop payload ''pageId'' else pageId)"
proof -
  let ?m = "fmupd ''pageId'' pageId fmempty ++\<^sub>f spread (js_or payload (JObj fmempty))"
  have "snd (updatePage pf c be tr pageId payload) = tr @ [post_req c url (JObj ?m)]"
    using assms(1) by (simp add: updatePage_def post_trace [OF u] js_or_def [of "JObj ?m"])
  moreover have "fmlookup ?m ''pageId'' =
      Some (if hasOwnProperty payload ''pageId'' then js_prop payload ''pageId'' else pageId)"
    by (simp add: fmlookup_dom_iff spread_pageId)
  ultimately show ?thesis by blast
qed

theorem updatePage_pageId_witness:
  "(\<exists>m. snd (updatePage test_platform test_client (paged_backend []) [] (JStr ''p1'')
               (JObj (fmap_of_list [(''pageId'', JStr ''p2''), (''title'', JStr ''New'')])))
          = [post_req test_client ''http://docmost.test/api/pages/update'' (JObj m)]
        \<and> fmlookup m ''pageId'' = Some (JStr ''p2''))
   \<and> (\<exists>m. snd (updatePage test_platform test_client (paged_backend []) [] (JStr ''p1'')
               (JObj (fmap_of_list [(''title'', JStr ''New'')])))
          = [post_req test_client ''http://docmost.test/api/pages/update'' (JObj m)]
        \<and> fmlookup m ''pageId'' = Some (JStr ''p1''))"
  using updatePage_pageId [of "JStr ''p1''" test_platform test_client
          "''http://docmost.test/api/pages/update''" "paged_backend []" "[]"
          "JObj (fmap_of_list [(''pageId'', JStr ''p2''), (''title'', JStr ''New'')])"]
        updatePage_pageId [of "JStr ''p1''" test_platform test_client
          "''http://docmost.test/api/pages/update''" "paged_backend []" "[]"
          "JObj (fmap_of_list [(''title'', JStr ''New'')])"]
  by (simp add: test_url hasOwnProperty_def js_prop_def)

subsection \<open>The envelope responses\<close>

text \<open>
  C2, as stated, fails: a failed envelope request is answered with the id \<open>null\<close>, not
  with the id of the request. Here the request has id 7 and an unknown method.
\<close>

theorem jsonRpc_error_id_counterexample:
  "js_prop rpc_unknown ''id'' = JNum 7
   \<and> map_option res_payload
        (sent_response
           (handler test_platform (test_server False) (paged_backend []) []
              (post_request ''/mcp'' rpc_unknown_text)))
     = Some (Some (rpc_error_body JNull (- 32600)
                     (''M'' @ [e_acute] @ ''todo JSON-RPC desconocido: nope'')))"
proof -
  have e: "handler test_platform (test_server False) (paged_backend []) []
           (post_request ''/mcp'' rpc_unknown_text)
        = jsonRpcRoute test_platform (test_server False) (paged_backend []) []
           (post_request ''/mcp'' rpc_unknown_text)"
    by (rule handler_rpc) (simp_all add: post_request_def is_rpc_url_def)
  have i: "js_prop rpc_unknown ''id'' = JNum 7"
    by (simp add: rpc_unknown_def js_prop_def)
  show ?thesis
    unfolding e
    by (simp add: jsonRpcRoute_def test_bodies handleJsonRpc_unknown sendJsonRpcError_payload i
        respond_def sent_response_def)
qed

text \<open>
  C2 (amended): every response sent to an envelope request has one of two shapes. On
  success it is \<open>{jsonrpc, id, result}\<close> and carries the id of the request. On failure
  it is \<open>{jsonrpc, id, error: {code, message}}\<close> with the id \<open>null\<close>, whatever the id
  of the request, and always the one code \<open>-32600\<close>.
\<close>

theorem jsonRpc_response_id:
  assumes "req_method req = ''POST''" and "is_rpc_url (req_url req)"
    and "handler pf s be tr req = Some (Sent resp, tr')"
  shows "case fst (parseJsonBody pf req) of
           Inl e \<Rightarrow> res_payload resp = Some (rpc_error_body JNull (- 32600) (message e))
         | Inr body \<Rightarrow>
            (case handleJsonRpc pf s be tr body of
               None \<Rightarrow> False
             | Some (Inl e, t) \<Rightarrow>
                 res_payload resp = Some (rpc_error_body JNull (- 32600) (message e))
             | Some (Inr (i, r), t) \<Rightarrow>
                 i = js_prop body ''id''
                 \<and> res_payload resp = Some (rpc_result_body (js_prop body ''id'') r))"
proof -
  from assms have r: "jsonRpcRoute pf s be tr req = Some (Sent resp, tr')"
    by (simp add: handler_rpc)
  obtain p d where pd: "parseJsonBody pf req = (p, d)" by (cases "parseJsonBody pf req")
  show ?thesis
  proof (cases p)
    case (Inl e)
    with r pd show ?thesis
      by (auto simp add: jsonRpcRoute_def sendJsonRpcError_payload respond_def split: if_splits)
  next
    case (Inr body)
    show ?thesis
    proof (cases "handleJsonRpc pf s be tr body")
      case None
      with r pd Inr show ?thesis by (simp add: jsonRpcRoute_def)
    next
      case (Some res)
      obtain out t where res: "res = (out, t)" by (cases res)
      show ?thesis
      proof (cases out)
        case (Inl e)
        with r pd Inr Some res show ?thesis
          by (auto simp add: jsonRpcRoute_def sendJsonRpcError_payload respond_def split: if_splits)
      next
        case ir: (Inr ir)
        obtain i r' where ir': "ir = (i, r')" by (cases ir)
        from Some res ir ir' have "i = js_prop body ''id''"
          using handleJsonRpc_id by blast
        with r pd Inr Some res ir ir' show ?thesis
          by (auto simp add: jsonRpcRoute_def sendJsonRpc_result respond_def split: if_splits)
      qed
    qed
  qed
qed

theorem jsonRpc_response_id_witness:
  "map_option res_payload
     (sent_response
        (handler test_platform (test_server True) (paged_backend []) []
           (post_request ''/'' rpc_list_tools_text)))
   = Some (Some (rpc_result_body (JNum 1)
        (JObj (fmap_of_list [(''tools'', JArr (map tool_json (tools (test_server True))))]))))"
proof -
  let ?req = "post_request ''/'' rpc_list_tools_text"
  let ?h = "handler test_platform (test_server True) (paged_backend []) [] ?req"
  have m: "req_method ?req = ''POST''" and u: "is_rpc_url (req_url ?req)"
    by (simp_all add: post_request_def is_rpc_url_def)
  have "?h = jsonRpcRoute test_platform (test_server True) (paged_backend []) [] ?req"
    using m u by (rule handler_rpc)
  then obtain resp where h: "?h = Some (Sent resp, [])"
    by (simp add: jsonRpcRoute_def test_bodies handleJsonRpc_list_tools respond_def)
  from jsonRpc_response_id [OF m u h]
  have "res_payload resp = Some (rpc_result_body (JNum 1)
        (JObj (fmap_of_list [(''tools'', JArr (map tool_json (tools (test_server True))))])))"
    by (simp add: test_bodies handleJsonRpc_list_tools rpc_list_tools_id)
  with h show ?thesis by (simp add: sent_response_def)
qed

subsection \<open>The HTTP status\<close>

text \<open>
  C10, as stated, fails: a direct tool call whose body is longer than 5,000,000
  characters fails, but \<open>parseJsonBody\<close> destroys the connection, so the response with
  status 400 that the handler then writes is lost and no response is sent.
\<close>

theorem oversize_tool_call_counterexample:
  "toolCallFails test_platform (test_server False) (paged_backend []) []
     (post_request ''/mcp/tool-call'' oversize_text)
   \<and> handler test_platform (test_server False) (paged_backend []) []
        (post_request ''/mcp/tool-call'' oversize_text)
     = Some (Dropped (sendJson test_platform 400
                        (JObj (fmap_of_list [(''error'', JStr msg_too_large)]))), [])
   \<and> sent_response
        (handler test_platform (test_server False) (paged_backend []) []
           (post_request ''/mcp/tool-call'' oversize_text)) = None"
proof -
  let ?req = "post_request ''/mcp/tool-call'' oversize_text"
  have p: "parseJsonBody test_platform ?req = (Inl (Error ProtocolError msg_too_large), True)"
    by (rule parse_oversize) (rule oversize_post)
  have "handler test_platform (test_server False) (paged_backend []) [] ?req
        = toolCallRoute test_platform (test_server False) (paged_backend []) [] ?req"
    by (rule handler_tool_call) (simp_all add: post_request_def)
  then show ?thesis
    by (simp add: toolCallRoute_def toolCallFails_def p respond_def sent_response_def)
qed

text \<open>
  C10 (amended): on an envelope route every failed request whose body is within the
  limit is answered, with the HTTP status 200, and every response sent has the status
  200; so there the status never tells success from failure. On the direct route every
  failed tool call whose body is within the limit is answered, with the status 400, and
  every response sent has the status 400 exactly when the call failed (200 otherwise). A
  request whose body is over the limit gets no response: the connection is destroyed.
\<close>

theorem http_status_by_shape:
  assumes "req_method req = ''POST''"
  shows "(is_rpc_url (req_url req) \<longrightarrow>
            (jsonRpcFails pf s be tr req \<and> \<not> oversize req
               \<longrightarrow> (\<exists>resp tr'. handler pf s be tr req = Some (Sent resp, tr')
                                \<and> res_status resp = 200))
          \<and> (oversize req
               \<longrightarrow> (\<exists>resp. handler pf s be tr req = Some (Dropped resp, tr)))
          \<and> (\<forall>resp tr'. handler pf s be tr req = Some (Sent resp, tr')
                 \<longrightarrow> res_status resp = 200))
       \<and> (req_url req = ''/mcp/tool-call'' \<longrightarrow>
            (toolCallFails pf s be tr req \<and> \<not> oversize req
               \<longrightarrow> (\<exists>resp tr'. handler pf s be tr req = Some (Sent resp, tr')
                                \<and> res_status resp = 400))
          \<and> (oversize req
               \<longrightarrow> (\<exists>resp. handler pf s be tr req = Some (Dropped resp, tr)))
          \<and> (\<forall>resp tr'. handler pf s be tr req = Some (Sent resp, tr')
                 \<longrightarrow> res_status resp = (if toolCallFails pf s be tr req then 400 else 200)))"
proof (intro conjI impI allI)
  assume u: "is_rpc_url (req_url req)"
  with assms have h: "handler pf s be tr req = jsonRpcRoute pf s be tr req"
    by (simp add: handler_rpc)
  {
    assume "jsonRpcFails pf s be tr req \<and> \<not> oversize req"
    then show "\<exists>resp tr'. handler pf s be tr req = Some (Sent resp, tr') \<and> res_status resp = 200"
      using parse_destroyed [of pf req] unfolding h
      by (auto simp add: jsonRpcRoute_def jsonRpcFails_def respond_def sendJsonRpcError_status
          sendJsonRpc_status split: sum.splits option.splits prod.splits)
  next
    assume "oversize req"
    then show "\<exists>resp. handler pf s be tr req = Some (Dropped resp, tr)"
      unfolding h by (simp add: jsonRpcRoute_def parse_oversize respond_def)
  next
    fix resp tr'
    assume "handler pf s be tr req = Some (Sent resp, tr')"
    then show "res_status resp = 200"
      unfolding h
      by (auto simp add: jsonRpcRoute_def respond_def sendJsonRpc_status sendJsonRpcError_status
          split: sum.splits option.splits prod.splits if_splits)
  }
next
  assume u: "req_url req = ''/mcp/tool-call''"
  with assms have h: "handler pf s be tr req = toolCallRoute pf s be tr req"
    by (simp add: handler_tool_call)
  {
    assume "toolCallFails pf s be tr req \<and> \<not> oversize req"
    then show "\<exists>resp tr'. handler pf s be tr req = Some (Sent resp, tr') \<and> res_status resp = 400"
      using parse_destroyed [of pf req] unfolding h
      by (auto simp add: toolCallRoute_def toolCallFails_def respond_def sendJson_status
          split: sum.splits option.splits prod.splits)
  next
    assume "oversize req"
    then show "\<exists>resp. handler pf s be tr req = Some (Dropped resp, tr)"
      unfolding h by (simp add: toolCallRoute_def parse_oversize respond_def)
  next
    fix resp tr'
    assume "handler pf s be tr req = Some (Sent resp, tr')"
    then have r: "toolCallRoute pf s be tr req = Some (Sent resp, tr')"
      unfolding h .
    obtain p d where pd: "parseJsonBody pf req = (p, d)" by (cases "parseJsonBody pf req")
    show "res_status resp = (if toolCallFails pf s be tr req then 400 else 200)"
    proof (cases p)
      case (Inl e)
      with r pd show ?thesis
        by (auto simp add: toolCallRoute_def toolCallFails_def respond_def sendJson_status
            split: if_splits)
    next
      case (Inr body)
      show ?thesis
      proof (cases "handleToolCall pf s be tr body")
        case None
        with r pd Inr show ?thesis by (simp add: toolCallRoute_def)
      next
        case (Some res)
        obtain out t where res: "res = (out, t)" by (cases res)
        show ?thesis
        proof (cases out)
          case (Inl e)
          with r pd \<open>p = Inr body\<close> Some res show ?thesis
            by (auto simp add: toolCallRoute_def toolCallFails_def respond_def sendJson_status
                split: if_splits)
        next
          case ok: (Inr v)
          with r pd Inr Some res show ?thesis
            by (auto simp add: toolCallRoute_def toolCallFails_def respond_def sendJson_status
                split: if_splits)
        qed
      qed
    qed
  }
qed


theorem http_status_by_shape_witness:
  "map_option res_status
     (sent_response
        (handler test_platform (test_server False) (paged_backend []) []
           (post_request ''/mcp'' rpc_unknown_text))) = Some 200
   \<and> map_option res_status
     (sent_response
        (handler test_platform (test_server False) (paged_backend []) []
           (post_request ''/mcp/tool-call'' call_unknown_text))) = Some 400"
proof -
  let ?rpc = "post_request ''/mcp'' rpc_unknown_text"
  let ?call = "post_request ''/mcp/tool-call'' call_unknown_text"
  have m: "req_method ?rpc = ''POST''" "req_method ?call = ''POST''"
    and u: "is_rpc_url (req_url ?rpc)" "req_url ?call = ''/mcp/tool-call''"
    by (simp_all add: post_request_def is_rpc_url_def)
  have c: "handleToolCall test_platform (test_server False) (paged_backend []) [] call_unknown
           = Some (Inl (Error ValidationError ''Herramienta desconocida: delete_page''), [])"
    by (simp add: handleToolCall_unfold call_unknown_def js_or_def js_prop_def msg_unknown_tool_def
        template_def test_server_def test_config_def)
  have f1: "jsonRpcFails test_platform (test_server False) (paged_backend []) [] ?rpc"
    by (simp add: jsonRpcFails_def test_bodies handleJsonRpc_unknown)
  have f2: "toolCallFails test_platform (test_server False) (paged_backend []) [] ?call"
    by (simp add: toolCallFails_def test_bodies c)
  have o: "\<not> oversize ?rpc" "\<not> oversize ?call"
    by (simp_all add: oversize_def post_request_def rpc_unknown_text_def call_unknown_text_def)
  from http_status_by_shape [OF m(1), of test_platform "test_server False" "paged_backend []" "[]"]
    u(1) f1 o(1)
  obtain r1 t1 where "handler test_platform (test_server False) (paged_backend []) [] ?rpc
      = Some (Sent r1, t1)" "res_status r1 = 200"
    by blast
  moreover
  from http_status_by_shape [OF m(2), of test_platform "test_server False" "paged_backend []" "[]"]
    u(2) f2 o(2)
  obtain r2 t2 where "handler test_platform (test_server False) (paged_backend []) [] ?call
      = Some (Sent r2, t2)" "res_status r2 = 400"
    by blast
  ultimately show ?thesis by (simp add: sent_response_def)
qed

subsection \<open>Credentials\<close>

text \<open>
  C7: the server that \<open>bootstrap\<close> produces attaches to every outbound request of every
  tool call exactly one credential, fixed by the configuration, whether the call returns
  or not: the statement is about the requests sent by a call watched for any number
  \<open>n\<close> of passes of the pagination loop, and about those of a call that has returned.
  With a static token no login happens, no session token exists, and every request
  carries the content type and the header \<open>Authorization: Bearer\<close> of that token.
  Without one, the login request is the only request of the bootstrap and carries no
  credential, the session token it yields is stored, and every later request carries the
  content type and the header \<open>Cookie\<close> of that session token.
\<close>

theorem one_credential_per_request:
  assumes b: "bootstrap pf e be0 tr0 = (Inr s, tr1)"
  shows "case nonempty (DOCMOST_API_TOKEN e) of
           Some t \<Rightarrow>
             tr1 = tr0 \<and> authCookie (client s) = None
             \<and> sent_with (json_headers (Some (''Authorization'', ''Bearer '' @ t))) tr
                 (snd (handleToolCall_upto n pf s be tr body))
             \<and> (\<forall>res tr'. handleToolCall pf s be tr body = Some (res, tr')
                   \<longrightarrow> sent_with (json_headers (Some (''Authorization'', ''Bearer '' @ t))) tr tr')
         | None \<Rightarrow>
             (\<exists>k login_rq. k \<noteq> [] \<and> authCookie (client s) = Some k
                \<and> tr1 = tr0 @ [login_rq] \<and> rq_headers login_rq = json_headers None
                \<and> sent_with (json_headers (Some (''Cookie'', ''authToken='' @ k))) tr
                    (snd (handleToolCall_upto n pf s be tr body))
                \<and> (\<forall>res tr'. handleToolCall pf s be tr body = Some (res, tr')
                      \<longrightarrow> sent_with (json_headers (Some (''Cookie'', ''authToken='' @ k))) tr tr'))"
proof -
  have w: "sent_with (client_headers (client s)) tr (snd (handleToolCall_upto n pf s be tr body))"
    by (rule handleToolCall_upto_sent)
  have r: "sent_with (client_headers (client s)) tr tr'"
    if "handleToolCall pf s be tr body = Some (res, tr')" for res tr'
    using handleToolCall_sent [OF that] by simp
  show ?thesis
  proof (cases "nonempty (DOCMOST_API_TOKEN e)")
    case None
    with bootstrap_client [OF b] w r show ?thesis by auto
  next
    case (Some t)
    with bootstrap_client [OF b] w r show ?thesis by auto
  qed
qed

theorem one_credential_per_request_witness:
  "bootstrap test_platform login_env cookie_backend [] = (Inr cookie_server, [login_req])
   \<and> rq_headers login_req = json_headers None
   \<and> map rq_headers
        (snd (handleToolCall_upto 0 test_platform cookie_server cookie_backend [login_req]
                list_spaces_call))
     = [json_headers None, json_headers (Some (''Cookie'', ''authToken=abc123''))]
   \<and> bootstrap test_platform (token_env False) cookie_backend [] = (Inr (test_server False), [])
   \<and> handleToolCall test_platform (test_server False) (seq_backend always_next) []
        list_pages_call = None
   \<and> map rq_headers
        (snd (handleToolCall_upto 2 test_platform (test_server False) (seq_backend always_next) []
                list_pages_call))
     = [json_headers (Some (''Authorization'', ''Bearer secret'')),
        json_headers (Some (''Authorization'', ''Bearer secret''))]"
proof -
  let ?call = "list_spaces_call"
  let ?rq = "post_req (client cookie_server) ''http://docmost.test/api/spaces''
               (JObj (fmap_of_list [(''page'', JNum 1), (''limit'', JNum 50)]))"
  let ?be = "seq_backend always_next"
  let ?url = "''http://docmost.test/api/pages/sidebar-pages''"
  have u: "url_resolve test_platform ''/api/spaces'' (baseUrl (client cookie_server))
             = Inr ''http://docmost.test/api/spaces''"
    by (simp add: test_platform_def cookie_server_def)
  have "handleToolCall_upto 0 test_platform cookie_server cookie_backend [login_req] ?call
          = ret (listSpaces test_platform (client cookie_server) cookie_backend [login_req])"
    by (simp add: handleToolCall_upto_def handleToolCall_with_def js_or_def js_prop_def
        cookie_server_def list_spaces_call_def)
  moreover have "snd (listSpaces test_platform (client cookie_server) cookie_backend [login_req])
          = [login_req, ?rq]"
    by (simp add: listSpaces_def post_trace [OF u] js_or_def)
  ultimately have h1:
    "snd (handleToolCall_upto 0 test_platform cookie_server cookie_backend [login_req] ?call)
       = [login_req, ?rq]"
    by (simp add: ret_def)
  have ac: "authCookie (client cookie_server) = Some ''abc123''"
    by (simp add: cookie_server_def)
  have n1: "nonempty (DOCMOST_API_TOKEN login_env) = None"
    by (simp add: login_env_def nonempty_def)
  from one_credential_per_request [OF bootstrap_login_env, of "[login_req]" 0 cookie_backend ?call]
  have "sent_with (json_headers (Some (''Cookie'', ''authToken=abc123''))) [login_req] [login_req, ?rq]"
    by (auto simp add: n1 ac h1)
  then have c1: "rq_headers ?rq = json_headers (Some (''Cookie'', ''authToken=abc123''))"
    by (auto simp add: sent_with_def)
  have su: "url_resolve test_platform ''/api/pages/sidebar-pages'' (baseUrl test_client) = Inr ?url"
    by (rule test_url [of "''/api/pages/sidebar-pages''", simplified])
  have a: "\<And>k tr. answers ?be k (sidebar_page [JStr ''page''] (next_meta True))"
    using answers_seq [of always_next] by (simp add: always_next_def)
  have p: "\<And>tr items page. loop_pass test_platform test_client ?be (JStr ''space-1'') tr items page
         = Inr (tr @ [sidebar_req test_client ?url (JStr ''space-1'') page],
                items @ [JStr ''page''], page + 1)"
    by (rule loop_pass_next [OF su a]) (simp add: has_next_meta)
  have h2: "handleToolCall_upto 2 test_platform (test_server False) ?be [] list_pages_call
      = (None, [sidebar_req test_client ?url (JStr ''space-1'') 1,
                sidebar_req test_client ?url (JStr ''space-1'') 2])"
    by (simp add: handleToolCall_upto_def handleToolCall_with_def listPages_with_def
        list_pages_call_def js_or_def js_prop_def member_def test_server_def test_config_def
        numeral_2_eq_2 p)
  have d: "handleToolCall test_platform (test_server False) ?be [] list_pages_call = None"
  proof (cases "handleToolCall test_platform (test_server False) ?be [] list_pages_call")
    case None
    then show ?thesis .
  next
    case (Some y)
    obtain r tr' where "y = (r, tr')" by (cases y)
    with Some handleToolCall_upto_iff obtain m where
      m: "handleToolCall_upto m test_platform (test_server False) ?be [] list_pages_call = (Some r, tr')"
      by blast
    have "fst (listPages_passes k test_platform test_client ?be (JStr ''space-1'') tr items page) = None"
      for k tr items page
      by (induction k arbitrary: tr items page) (simp_all add: p)
    then have "fst (handleToolCall_upto m test_platform (test_server False) ?be [] list_pages_call) = None"
      by (simp add: handleToolCall_upto_def handleToolCall_with_def listPages_with_def
          list_pages_call_def js_or_def js_prop_def member_def test_server_def test_config_def)
    with m show ?thesis by simp
  qed
  have n2: "nonempty (DOCMOST_API_TOKEN (token_env False)) = Some ''secret''"
    by (simp add: token_env_def nonempty_def)
  from one_credential_per_request [OF bootstrap_token_env [of False cookie_backend], of "[]" 2 ?be
      list_pages_call]
  have "sent_with (json_headers (Some (''Authorization'', ''Bearer secret''))) []
          [sidebar_req test_client ?url (JStr ''space-1'') 1,
           sidebar_req test_client ?url (JStr ''space-1'') 2]"
    by (simp add: n2 h2)
  then have c2: "rq_headers (sidebar_req test_client ?url (JStr ''space-1'') 1)
                   = json_headers (Some (''Authorization'', ''Bearer secret''))"
    "rq_headers (sidebar_req test_client ?url (JStr ''space-1'') 2)
                   = json_headers (Some (''Authorization'', ''Bearer secret''))"
    by (auto simp add: sent_with_def)
  show ?thesis
    using c1 c2 d
    by (simp add: bootstrap_login_env bootstrap_token_env h1 h2) (simp add: login_req_def)
qed

end
